theory Spec2Isabelle
  imports Complex_Main "HOL-Library.Multiset" "HOL-Library.Sublist" "HOL-Library.Log_Nat"
begin

section \<open>JavaScript values used by the extraction pipeline\<close>

text \<open>
  A JavaScript string is a sequence of UTF-16 code units and \<^verbatim>\<open>length\<close> counts
  code units. The model uses \<^typ>\<open>string\<close>; a \<^typ>\<open>char\<close> stands for the code unit
  with the same number (0 to 255, the Basic Latin and Latin-1 blocks), so \<^const>\<open>length\<close>,
  \<^const>\<open>take\<close> and the functions below agree with \<^verbatim>\<open>length\<close>,
  \<^verbatim>\<open>slice(0, n)\<close>, \<^verbatim>\<open>includes\<close>, \<^verbatim>\<open>toLowerCase\<close>,
  \<^verbatim>\<open>trim\<close>, \<^verbatim>\<open>split\<close> and \<^verbatim>\<open>join\<close> on such strings.
\<close>

fun includesStr :: "string \<Rightarrow> string \<Rightarrow> bool" where
  "includesStr [] t = (t = [])"
| "includesStr (c # s) t = (prefix t (c # s) \<or> includesStr s t)"

definition lowerChar :: "char \<Rightarrow> char" where
  "lowerChar c =
     (let n = (of_char c :: nat)
      in if (65 \<le> n \<and> n \<le> 90) \<or> (192 \<le> n \<and> n \<le> 222 \<and> n \<noteq> 215)
         then char_of (n + 32) else c)"

definition toLowerCase :: "string \<Rightarrow> string" where
  "toLowerCase s = map lowerChar s"

definition isWhiteSpace :: "char \<Rightarrow> bool" where
  "isWhiteSpace c = ((of_char c :: nat) \<in> {9, 10, 11, 12, 13, 32, 160})"

definition trim :: "string \<Rightarrow> string" where
  "trim s = rev (dropWhile isWhiteSpace (rev (dropWhile isWhiteSpace s)))"

text \<open>\<^verbatim>\<open>s.split(sep)\<close> for a separator of one code unit: every occurrence splits.\<close>

fun split :: "char \<Rightarrow> string \<Rightarrow> string list" where
  "split sep [] = [[]]"
| "split sep (c # s) =
     (if c = sep then [] # split sep s
      else (case split sep s of [] \<Rightarrow> [[c]] | w # ws \<Rightarrow> (c # w) # ws))"

fun join :: "string \<Rightarrow> string list \<Rightarrow> string" where
  "join sep [] = []"
| "join sep [x] = x"
| "join sep (x # y # ys) = x @ sep @ join sep (y # ys)"

text \<open>
  \<^verbatim>\<open>Array.prototype.sort(cmp)\<close> is stable (ECMAScript 2019): for a comparator that
  is a consistent ordering the result is the one a stable insertion sort produces.
  An element stays in front of a later one unless the comparator is positive. The
  comparators of this program return integers or differences of ratings.
\<close>

fun insort_cmp :: "('a \<Rightarrow> 'a \<Rightarrow> 'b::{zero,ord}) \<Rightarrow> 'a \<Rightarrow> 'a list \<Rightarrow> 'a list" where
  "insort_cmp cmp x [] = [x]"
| "insort_cmp cmp x (y # ys) =
     (if cmp x y \<le> 0 then x # y # ys else y # insort_cmp cmp x ys)"

definition sort_cmp :: "('a \<Rightarrow> 'a \<Rightarrow> 'b::{zero,ord}) \<Rightarrow> 'a list \<Rightarrow> 'a list" where
  "sort_cmp cmp xs = foldr (insort_cmp cmp) xs []"

text \<open>
  A plain object used as a dictionary (\<^verbatim>\<open>specifications: {}\<close>): the own properties
  in insertion order. Assigning to an existing key keeps its place; assigning a string
  to the key \<^verbatim>\<open>__proto__\<close> reaches the inherited setter of \<^verbatim>\<open>Object.prototype\<close>,
  which ignores a value that is not an object, so no own property is created.
\<close>

type_synonym jsobject = "(string \<times> string) list"

fun assign :: "jsobject \<Rightarrow> string \<Rightarrow> string \<Rightarrow> jsobject" where
  "assign [] k v = [(k, v)]"
| "assign ((k', v') # kvs) k v =
     (if k' = k then (k, v) # kvs else (k', v') # assign kvs k v)"

definition setProperty :: "jsobject \<Rightarrow> string \<Rightarrow> string \<Rightarrow> jsobject" where
  "setProperty obj k v = (if k = ''__proto__'' then obj else assign obj k v)"

section \<open>Data model of src/lib/extract-text.ts\<close>

record UserPreferences =
  expertise :: "string option"
  productTypes :: "string list option"
  evaluationCriteria :: "string list option"

text \<open>
  An entity of the annotation response. Every field may be missing or null. The salience
  is a double; it is held as the rational number the double denotes.
\<close>

record entity =
  entity_name :: "string option"
  entity_type :: "string option"
  salience :: "rat option"
  mentions :: "string list option"

record productInfo =
  name :: string
  price :: string
  features :: "string list"
  specifications :: jsobject
  description :: string

section \<open>extractProductInfo\<close>

definition initialProductInfo :: productInfo where
  "initialProductInfo =
     \<lparr> name = [], price = [], features = [], specifications = [], description = [] \<rparr>"

text \<open>The literal \<^verbatim>\<open>0.1\<close> is the double \<open>3602879701896397 / 2^55\<close>.\<close>

definition salienceThreshold :: rat where
  "salienceThreshold = 3602879701896397 / 36028797018963968"

text \<open>\<^verbatim>\<open>salience && salience > 0.1\<close>\<close>

definition salient :: "entity \<Rightarrow> bool" where
  "salient e = (case salience e of None \<Rightarrow> False | Some s \<Rightarrow> s \<noteq> 0 \<and> s > salienceThreshold)"

text \<open>\<^verbatim>\<open>entity.mentions && entity.mentions.length > 0\<close>\<close>

definition mentioned :: "entity \<Rightarrow> bool" where
  "mentioned e = (case mentions e of None \<Rightarrow> False | Some ms \<Rightarrow> length ms > 0)"

text \<open>
  \<^verbatim>\<open>const [key, value] = name.split(":").map((s) => s.trim())\<close> followed by the
  assignment guarded by \<^verbatim>\<open>key && value\<close>: the first two pieces of the split;
  a missing piece is \<^verbatim>\<open>undefined\<close> and fails the guard.
\<close>

definition storeSpecification :: "productInfo \<Rightarrow> string \<Rightarrow> productInfo" where
  "storeSpecification pinfo nm =
     (case map trim (split CHR '':'' nm) of
        key # value # _ \<Rightarrow>
          if key \<noteq> [] \<and> value \<noteq> []
          then pinfo\<lparr>specifications := setProperty (specifications pinfo) key value\<rparr>
          else pinfo
      | _ \<Rightarrow> pinfo)"

text \<open>One iteration of the loop over the entities.\<close>

definition classifyEntity :: "productInfo \<Rightarrow> entity \<Rightarrow> productInfo" where
  "classifyEntity pinfo e =
     (case entity_name e of
        None \<Rightarrow> pinfo
      | Some nm \<Rightarrow>
          if nm = [] then pinfo
          else
            let p1 = (if entity_type e = Some ''CONSUMER_GOOD'' \<and> salient e \<and> name pinfo = []
                      then pinfo\<lparr>name := nm\<rparr> else pinfo);
                p2 = (if entity_type e = Some ''PRICE'' \<and> price p1 = []
                      then p1\<lparr>price := nm\<rparr> else p1)
            in if entity_type e = Some ''OTHER'' \<and> mentioned e
               then (if includesStr nm '' '' \<and> length nm > 10
                     then p2\<lparr>features := features p2 @ [nm]\<rparr>
                     else if includesStr nm '':'' then storeSpecification p2 nm
                     else p2)
               else p2)"

definition classifyEntities :: "productInfo \<Rightarrow> entity list \<Rightarrow> productInfo" where
  "classifyEntities pinfo es = foldl classifyEntity pinfo es"

text \<open>
  \<^verbatim>\<open>criteria.some((criterion) => a.toLowerCase().includes(criterion.toLowerCase()))\<close>
\<close>

definition matchesPreference :: "string list \<Rightarrow> string \<Rightarrow> bool" where
  "matchesPreference criteria a =
     list_ex (\<lambda>criterion. includesStr (toLowerCase a) (toLowerCase criterion)) criteria"

definition featureCompare :: "string list \<Rightarrow> string \<Rightarrow> string \<Rightarrow> int" where
  "featureCompare criteria a b =
     (if matchesPreference criteria a \<and> \<not> matchesPreference criteria b then -1
      else if \<not> matchesPreference criteria a \<and> matchesPreference criteria b then 1
      else 0)"

text \<open>
  \<^verbatim>\<open>preferences?.evaluationCriteria\<close>: the criteria when preferences are given and
  the field is present. An empty array is truthy in JavaScript.
\<close>

definition criteriaOf :: "UserPreferences option \<Rightarrow> string list option" where
  "criteriaOf preferences =
     (case preferences of None \<Rightarrow> None | Some p \<Rightarrow> evaluationCriteria p)"

text \<open>The step after the loop: the sort of the features, when preferences carry criteria.\<close>

definition prioritizeFeatures :: "UserPreferences option \<Rightarrow> productInfo \<Rightarrow> productInfo" where
  "prioritizeFeatures preferences pinfo =
     (case criteriaOf preferences of
        Some criteria \<Rightarrow>
          if length (features pinfo) > 0
          then pinfo\<lparr>features := sort_cmp (featureCompare criteria) (features pinfo)\<rparr>
          else pinfo
      | None \<Rightarrow> pinfo)"

definition extractProductInfo :: "entity list \<Rightarrow> UserPreferences option \<Rightarrow> productInfo" where
  "extractProductInfo entities preferences =
     prioritizeFeatures preferences (classifyEntities initialProductInfo entities)"

text \<open>What the specification calls a qualifying entity for the name and for the price.\<close>

definition qualifiesAsName :: "entity \<Rightarrow> bool" where
  "qualifiesAsName e =
     (entity_type e = Some ''CONSUMER_GOOD''
      \<and> (case salience e of None \<Rightarrow> False | Some s \<Rightarrow> s > salienceThreshold)
      \<and> (case entity_name e of None \<Rightarrow> False | Some nm \<Rightarrow> nm \<noteq> []))"

definition qualifiesAsPrice :: "entity \<Rightarrow> bool" where
  "qualifiesAsPrice e =
     (entity_type e = Some ''PRICE''
      \<and> (case entity_name e of None \<Rightarrow> False | Some nm \<Rightarrow> nm \<noteq> []))"

definition nameOrEmpty :: "entity option \<Rightarrow> string" where
  "nameOrEmpty r = (case r of None \<Rightarrow> [] | Some e \<Rightarrow> (case entity_name e of None \<Rightarrow> [] | Some nm \<Rightarrow> nm))"


section \<open>extractDescriptions\<close>

record textSpan =
  content :: "string option"

record sentence =
  sentence_text :: "textSpan option"

text \<open>\<^verbatim>\<open>sentence.text?.content\<close>\<close>

definition textOf :: "sentence \<Rightarrow> string option" where
  "textOf s = (case sentence_text s of None \<Rightarrow> None | Some t \<Rightarrow> content t)"

text \<open>The condition under which the loop pushes a text onto \<^verbatim>\<open>descriptions\<close>.\<close>

definition looksLikeDescription :: "string \<Rightarrow> bool" where
  "looksLikeDescription txt =
     (length txt > 40
      \<and> \<not> includesStr txt ''click''
      \<and> \<not> includesStr txt ''login''
      \<and> \<not> includesStr txt ''sign in''
      \<and> \<not> includesStr txt ''cookie''
      \<and> \<not> includesStr txt ''review by'')"

definition collectDescription :: "string list \<Rightarrow> sentence \<Rightarrow> string list" where
  "collectDescription descriptions s =
     (case textOf s of
        None \<Rightarrow> descriptions
      | Some txt \<Rightarrow>
          if txt = [] then descriptions
          else if looksLikeDescription txt then descriptions @ [txt]
          else descriptions)"

definition collectDescriptions :: "sentence list \<Rightarrow> string list" where
  "collectDescriptions sentences = foldl collectDescription [] sentences"

text \<open>
  \<^verbatim>\<open>criteria.reduce((score, criterion) =>
     score + (a.toLowerCase().includes(criterion.toLowerCase()) ? 1 : 0), 0)\<close>
\<close>

definition relevanceScore :: "string list \<Rightarrow> string \<Rightarrow> int" where
  "relevanceScore criteria a =
     foldl (\<lambda>score criterion.
              score + (if includesStr (toLowerCase a) (toLowerCase criterion) then 1 else 0))
       0 criteria"

definition descriptionCompare :: "string list \<Rightarrow> string \<Rightarrow> string \<Rightarrow> int" where
  "descriptionCompare criteria a b = relevanceScore criteria b - relevanceScore criteria a"

text \<open>The step after the loop: the sort by relevance, when preferences carry criteria.\<close>

definition rankDescriptions :: "UserPreferences option \<Rightarrow> string list \<Rightarrow> string list" where
  "rankDescriptions preferences descriptions =
     (case criteriaOf preferences of
        Some criteria \<Rightarrow>
          if length descriptions > 0
          then sort_cmp (descriptionCompare criteria) descriptions
          else descriptions
      | None \<Rightarrow> descriptions)"

definition extractDescriptions :: "sentence list \<Rightarrow> UserPreferences option \<Rightarrow> string list" where
  "extractDescriptions sentences preferences =
     rankDescriptions preferences (collectDescriptions sentences)"

section \<open>Report assembly (step 7 of extractTextFromUrl)\<close>

text \<open>\<^verbatim>\<open>String(n)\<close> and \<^verbatim>\<open>${n}\<close> for a non-negative integer.\<close>

function showNat :: "nat \<Rightarrow> string" where
  "showNat n =
     (if n < 10 then [char_of (48 + n)]
      else showNat (n div 10) @ [char_of (48 + n mod 10)])"
  by pat_completeness auto
termination
  by (relation "measure id") auto

declare showNat.simps [simp del]

text \<open>\<^verbatim>\<open>a || b\<close> on strings: the empty string is falsy.\<close>

definition orElse :: "string \<Rightarrow> string \<Rightarrow> string" where
  "orElse a b = (if a \<noteq> [] then a else b)"

text \<open>
  \<^verbatim>\<open>Object.entries\<close> lists the keys that are array indices (canonical decimal
  numerals below \<open>2^32 - 1\<close>) first, in ascending numeric order, then the other keys in
  insertion order.
\<close>

definition isDigit :: "char \<Rightarrow> bool" where
  "isDigit c = (48 \<le> (of_char c :: nat) \<and> (of_char c :: nat) \<le> 57)"

definition digitsValue :: "string \<Rightarrow> nat" where
  "digitsValue k = foldl (\<lambda>acc c. 10 * acc + ((of_char c :: nat) - 48)) 0 k"

definition isArrayIndex :: "string \<Rightarrow> bool" where
  "isArrayIndex k =
     (k \<noteq> [] \<and> list_all isDigit k \<and> (k = ''0'' \<or> hd k \<noteq> CHR ''0'')
      \<and> digitsValue k < 4294967295)"

definition entries :: "jsobject \<Rightarrow> (string \<times> string) list" where
  "entries obj =
     sort_key (\<lambda>kv. digitsValue (fst kv)) (filter (\<lambda>kv. isArrayIndex (fst kv)) obj)
     @ filter (\<lambda>kv. \<not> isArrayIndex (fst kv)) obj"

text \<open>
  \<^verbatim>\<open>preferences?.expertise === "expert" || preferences?.expertise === "advanced"\<close>
\<close>

definition isExpert :: "UserPreferences option \<Rightarrow> bool" where
  "isExpert preferences =
     (case preferences of
        None \<Rightarrow> False
      | Some p \<Rightarrow> expertise p = Some ''expert'' \<or> expertise p = Some ''advanced'')"

definition descriptionSection :: "productInfo \<Rightarrow> string list \<Rightarrow> bool \<Rightarrow> string" where
  "descriptionSection pinfo descriptions expert =
     orElse (join ''\<newline>\<newline>'' (take (if expert then 5 else 3) descriptions))
       (orElse (description pinfo) ''No description available.'')"

definition featureBullets :: "productInfo \<Rightarrow> bool \<Rightarrow> string list" where
  "featureBullets pinfo expert =
     map (\<lambda>f. ''- '' @ f) (take (if expert then 10 else 5) (features pinfo))"

definition featuresSection :: "productInfo \<Rightarrow> bool \<Rightarrow> string" where
  "featuresSection pinfo expert =
     (if length (features pinfo) > 0 then join ''\<newline>'' (featureBullets pinfo expert)
      else ''- No features extracted.'')"

definition specificationsSection :: "productInfo \<Rightarrow> string" where
  "specificationsSection pinfo =
     (if length (entries (specifications pinfo)) > 0
      then join ''\<newline>''
             (map (\<lambda>kv. ''- '' @ fst kv @ '': '' @ snd kv) (entries (specifications pinfo)))
      else ''- No specifications extracted.'')"

definition additionalInformation :: "string \<Rightarrow> bool \<Rightarrow> string" where
  "additionalInformation mainContent expert =
     (if expert
      then ''\<newline>Additional Information:\<newline>'' @ take 2000 mainContent @ ''...\<newline>''
      else ''\<newline>Additional Information:\<newline>'' @ take 1000 mainContent @ ''...\<newline>'')"

definition assembleReport ::
  "productInfo \<Rightarrow> string list \<Rightarrow> string \<Rightarrow> UserPreferences option \<Rightarrow> string" where
  "assembleReport pinfo descriptions mainContent preferences =
     ''\<newline>Product Name: '' @ orElse (name pinfo) ''Unknown Product'' @ ''\<newline>''
     @ (if price pinfo \<noteq> [] then ''Price: '' @ price pinfo else [])
     @ ''\<newline>\<newline>Product Description:\<newline>''
     @ descriptionSection pinfo descriptions (isExpert preferences)
     @ ''\<newline>\<newline>Key Features:\<newline>''
     @ featuresSection pinfo (isExpert preferences)
     @ ''\<newline>\<newline>Technical Specifications:\<newline>''
     @ specificationsSection pinfo
     @ ''\<newline>\<newline>''
     @ additionalInformation mainContent (isExpert preferences)
     @ ''\<newline>    ''"

section \<open>The pipeline stages and their failures\<close>

text \<open>
  A thrown value is an \<^verbatim>\<open>Error\<close> with its message, or some other value, held as
  its \<^verbatim>\<open>String(...)\<close> rendering.
\<close>

datatype thrown = Error string | NonError string

text \<open>\<^verbatim>\<open>error instanceof Error ? error.message : String(error)\<close>\<close>

definition causeText :: "thrown \<Rightarrow> string" where
  "causeText error = (case error of Error message \<Rightarrow> message | NonError rendering \<Rightarrow> rendering)"

text \<open>
  A request as handed to \<^verbatim>\<open>fetch\<close>. The body of an annotation request is the JSON
  document \<^verbatim>\<open>{document: {type: "PLAIN_TEXT", content}, encodingType: "UTF8"}\<close>;
  the record keeps its content.
\<close>

record request =
  req_url :: string
  req_method :: string
  req_headers :: "(string \<times> string) list"
  req_content :: "string option"

record annotations =
  entities :: "entity list option"
  sentences :: "sentence list option"

text \<open>
  A response: \<^verbatim>\<open>response.text()\<close> and \<^verbatim>\<open>response.json()\<close> may reject.
  The JSON of an annotation response is taken to have the declared type.
\<close>

record response =
  ok :: bool
  status :: nat
  statusText :: string
  body_text :: "thrown + string"
  body_json :: "thrown + annotations"

text \<open>
  What lies outside the program during one run: the environment variable, the network
  behind \<^verbatim>\<open>fetch\<close> (which may reject), and the readability library:
  \<^verbatim>\<open>new Readability(new JSDOM(html).window.document).parse()\<close> throws, returns
  \<^verbatim>\<open>null\<close>, or returns an article whose \<^verbatim>\<open>textContent\<close> may be null.
\<close>

record world =
  GOOGLE_CLOUD_API_KEY :: "string option"
  fetch :: "request \<Rightarrow> thrown + response"
  readability :: "string \<Rightarrow> thrown + string option option"

text \<open>
  The outcome of an asynchronous function: the value it resolves to or the value it
  rejects with, and the requests it sent over the network, in order.
\<close>

type_synonym 'a io = "(thrown + 'a) \<times> request list"

definition io_return :: "'a \<Rightarrow> 'a io" where
  "io_return x = (Inr x, [])"

definition io_throw :: "thrown \<Rightarrow> 'a io" where
  "io_throw error = (Inl error, [])"

definition io_lift :: "thrown + 'a \<Rightarrow> 'a io" where
  "io_lift r = (r, [])"

definition io_bind :: "'a io \<Rightarrow> ('a \<Rightarrow> 'b io) \<Rightarrow> 'b io" where
  "io_bind m f =
     (case m of
        (Inl error, sent) \<Rightarrow> (Inl error, sent)
      | (Inr x, sent) \<Rightarrow> (case f x of (r, sent') \<Rightarrow> (r, sent @ sent')))"

definition io_catch :: "'a io \<Rightarrow> (thrown \<Rightarrow> 'a io) \<Rightarrow> 'a io" where
  "io_catch m handler =
     (case m of
        (Inl error, sent) \<Rightarrow> (case handler error of (r, sent') \<Rightarrow> (r, sent @ sent'))
      | (Inr x, sent) \<Rightarrow> (Inr x, sent))"

definition io_fetch :: "world \<Rightarrow> request \<Rightarrow> response io" where
  "io_fetch w req = (fetch w req, [req])"

text \<open>The request \<^verbatim>\<open>fetch(url, {headers: {"User-Agent": ...}})\<close>.\<close>

definition getRequest :: "string \<Rightarrow> request" where
  "getRequest u =
     \<lparr> req_url = u, req_method = ''GET'',
       req_headers = [(''User-Agent'', ''Mozilla/5.0 (compatible; ProductEvaluationBot/1.0)'')],
       req_content = None \<rparr>"

definition fetchHtmlFromUrl :: "world \<Rightarrow> string \<Rightarrow> string io" where
  "fetchHtmlFromUrl w u =
     io_catch
       (io_bind (io_fetch w (getRequest u))
          (\<lambda>response.
             if \<not> ok response
             then io_throw (Error (''Failed to fetch URL: '' @ showNat (status response)
                                   @ '' '' @ statusText response))
             else io_lift (body_text response)))
       (\<lambda>error. io_throw (Error (''Failed to fetch content from URL: '' @ causeText error)))"

definition extractMainContent :: "world \<Rightarrow> string \<Rightarrow> string io" where
  "extractMainContent w html =
     io_catch
       (io_bind (io_lift (readability w html))
          (\<lambda>article.
             case article of
               None \<Rightarrow> io_throw (Error ''Failed to extract main content from HTML'')
             | Some None \<Rightarrow> io_throw (Error ''Failed to extract main content from HTML'')
             | Some (Some textContent) \<Rightarrow>
                 if textContent = []
                 then io_throw (Error ''Failed to extract main content from HTML'')
                 else io_return textContent))
       (\<lambda>error. io_throw (Error (''Failed to extract main content: '' @ causeText error)))"

text \<open>The body shared by the two annotation calls, up to the endpoint.\<close>

definition annotate :: "world \<Rightarrow> string \<Rightarrow> string \<Rightarrow> annotations io" where
  "annotate w endpoint txt =
     (case GOOGLE_CLOUD_API_KEY w of
        None \<Rightarrow> io_throw (Error ''Google Cloud API key is not configured'')
      | Some apiKey \<Rightarrow>
          if apiKey = [] then io_throw (Error ''Google Cloud API key is not configured'')
          else
            io_bind
              (io_fetch w
                 \<lparr> req_url = ''https://language.googleapis.com/v1/documents:'' @ endpoint
                               @ ''?key='' @ apiKey,
                   req_method = ''POST'',
                   req_headers = [(''Content-Type'', ''application/json'')],
                   req_content = Some txt \<rparr>)
              (\<lambda>response.
                 if \<not> ok response
                 then io_bind (io_lift (body_text response))
                        (\<lambda>errorText.
                           io_throw (Error (''Google Cloud API error: ''
                              @ showNat (status response) @ '' '' @ statusText response
                              @ '' - '' @ errorText)))
                 else io_lift (body_json response)))"

definition analyzeEntities :: "world \<Rightarrow> string \<Rightarrow> annotations io" where
  "analyzeEntities w txt =
     io_catch (annotate w ''analyzeEntities'' txt)
       (\<lambda>error. io_throw (Error (''Failed to analyze entities: '' @ causeText error)))"

definition analyzeSyntax :: "world \<Rightarrow> string \<Rightarrow> annotations io" where
  "analyzeSyntax w txt =
     io_catch (annotate w ''analyzeSyntax'' txt)
       (\<lambda>error. io_throw (Error (''Failed to analyze syntax: '' @ causeText error)))"

text \<open>\<^verbatim>\<open>xs || []\<close>\<close>

definition orEmpty :: "'a list option \<Rightarrow> 'a list" where
  "orEmpty xs = (case xs of None \<Rightarrow> [] | Some ys \<Rightarrow> ys)"

definition extractTextFromUrl :: "world \<Rightarrow> string \<Rightarrow> UserPreferences option \<Rightarrow> string io" where
  "extractTextFromUrl w u preferences =
     io_catch
       (io_bind (fetchHtmlFromUrl w u) (\<lambda>html.
        io_bind (extractMainContent w html) (\<lambda>mainContent.
        let truncatedContent = take 5000 mainContent in
        io_bind (analyzeEntities w truncatedContent) (\<lambda>entityResponse.
        io_bind (analyzeSyntax w truncatedContent) (\<lambda>syntaxResponse.
        let pinfo = extractProductInfo (orEmpty (entities entityResponse)) preferences;
            descriptions = extractDescriptions (orEmpty (sentences syntaxResponse)) preferences
        in io_return (assembleReport pinfo descriptions mainContent preferences))))))
       (\<lambda>error. io_throw (Error (''Failed to extract text from URL: '' @ causeText error)))"

section \<open>getSimulatedSummary (src/app/api/generate-summary/route.ts)\<close>

text \<open>
  A JavaScript number is a double. A finite double is held as the rational number it
  denotes, and an arithmetic operation returns the exact result rounded to the nearest
  double, ties to the even significand: 53 significant bits, and multiples of
  \<open>2^-1074\<close> below the normal range. The ratings are between 0 and 10 and an array
  has fewer than \<open>2^32\<close> elements, so no operation here overflows.
\<close>

text \<open>\<open>\<lfloor>log\<^sub>2 x\<rfloor>\<close> for a positive rational, from the bit lengths of numerator and denominator.\<close>

definition binaryExponent :: "rat \<Rightarrow> int" where
  "binaryExponent x =
     (let (p, q) = quotient_of x; d = bitlen p - bitlen q
      in if 2 powi d \<le> x then d else d - 1)"

text \<open>The distance between neighbouring doubles at a positive \<open>x\<close>.\<close>

definition ulp :: "rat \<Rightarrow> rat" where
  "ulp x = 2 powi (max (binaryExponent x - 52) (- 1074))"

definition roundHalfEven :: "rat \<Rightarrow> int" where
  "roundHalfEven y =
     (let f = \<lfloor>y\<rfloor>; r = y - of_int f
      in if r < 1/2 then f else if 1/2 < r then f + 1 else if even f then f else f + 1)"

definition roundDouble :: "rat \<Rightarrow> rat" where
  "roundDouble x =
     (if x = 0 then 0
      else sgn x * of_int (roundHalfEven (\<bar>x\<bar> / ulp \<bar>x\<bar>)) * ulp \<bar>x\<bar>)"




record AssessmentCriterion =
  criterion_name :: string
  rating :: rat
  criterion_notes :: string








section \<open>Sample inputs\<close>

text \<open>The two entities of the specification's example for the product name.\<close>

definition widget :: entity where
  "widget = \<lparr> entity_name = Some ''Widget'', entity_type = Some ''CONSUMER_GOOD'',
              salience = Some (1/2), mentions = None \<rparr>"

definition gadget :: entity where
  "gadget = \<lparr> entity_name = Some ''Gadget'', entity_type = Some ''CONSUMER_GOOD'',
              salience = Some (9/10), mentions = None \<rparr>"

definition priceTag :: "string \<Rightarrow> entity" where
  "priceTag s = \<lparr> entity_name = Some s, entity_type = Some ''PRICE'',
                  salience = None, mentions = None \<rparr>"

definition otherEntity :: "string \<Rightarrow> entity" where
  "otherEntity nm = \<lparr> entity_name = Some nm, entity_type = Some ''OTHER'',
                       salience = Some (1/100), mentions = Some [nm] \<rparr>"

definition plainSentence :: "string \<Rightarrow> sentence" where
  "plainSentence txt = \<lparr> sentence_text = Some \<lparr> content = Some txt \<rparr> \<rparr>"

text \<open>A product page and the annotation service's answer for it.\<close>

definition kettleEntities :: "entity list" where
  "kettleEntities =
     [\<lparr> entity_name = Some ''Acme Kettle'', entity_type = Some ''CONSUMER_GOOD'',
        salience = Some (3/5), mentions = Some [''Acme Kettle''] \<rparr>,
      \<lparr> entity_name = Some ''$49.99'', entity_type = Some ''PRICE'',
        salience = Some (1/20), mentions = Some [''$49.99''] \<rparr>,
      otherEntity ''Automatic shut-off'',
      otherEntity ''Volume:1.7l'',
      otherEntity ''Long Battery life'']"

definition kettleSentences :: "sentence list" where
  "kettleSentences =
     [plainSentence ''The Acme Kettle boils a full jug of water in three minutes.'',
      plainSentence ''Please sign in to see the price for members of the club.'',
      plainSentence ''Buy now.'',
      plainSentence ''A rechargeable BATTERY in the base keeps the water warm.'']"

definition kettleWorld :: world where
  "kettleWorld =
     \<lparr> GOOGLE_CLOUD_API_KEY = Some ''secret'',
       fetch = (\<lambda>req.
          if req_method req = ''GET''
          then Inr \<lparr> ok = True, status = 200, statusText = ''OK'',
                     body_text = Inr ''<html><p>Acme Kettle</p></html>'',
                     body_json = Inl (Error ''Unexpected token <'') \<rparr>
          else Inr \<lparr> ok = True, status = 200, statusText = ''OK'',
                     body_text = Inr ''{}'',
                     body_json = Inr \<lparr> entities = Some kettleEntities,
                                        sentences = Some kettleSentences \<rparr> \<rparr>),
       readability = (\<lambda>html. Inr (Some (Some ''Acme Kettle. Boils fast.''))) \<rparr>"

definition expertUser :: UserPreferences where
  "expertUser = \<lparr> expertise = Some ''expert'', productTypes = None,
                   evaluationCriteria = Some [''battery''] \<rparr>"

text \<open>A run in which the network is down, the parser throws and the key is not set.\<close>

definition brokenWorld :: world where
  "brokenWorld =
     \<lparr> GOOGLE_CLOUD_API_KEY = None,
       fetch = (\<lambda>req. Inl (Error ''getaddrinfo ENOTFOUND'')),
       readability = (\<lambda>html. Inl (NonError ''out of memory'')) \<rparr>"

text \<open>A run in which the page is missing, and one in which the service refuses the key.\<close>

definition notFoundWorld :: world where
  "notFoundWorld =
     \<lparr> GOOGLE_CLOUD_API_KEY = Some ''secret'',
       fetch = (\<lambda>req. Inr \<lparr> ok = False, status = 404, statusText = ''Not Found'',
                             body_text = Inr ''<html>gone</html>'',
                             body_json = Inl (Error ''Unexpected token <'') \<rparr>),
       readability = (\<lambda>html. Inr None) \<rparr>"

definition deniedWorld :: world where
  "deniedWorld =
     \<lparr> GOOGLE_CLOUD_API_KEY = Some ''expired'',
       fetch = (\<lambda>req.
          if req_method req = ''GET''
          then Inr \<lparr> ok = True, status = 200, statusText = ''OK'',
                     body_text = Inr ''<html><p>Acme Kettle</p></html>'',
                     body_json = Inl (Error ''Unexpected token <'') \<rparr>
          else Inr \<lparr> ok = False, status = 403, statusText = ''Forbidden'',
                     body_text = Inr ''API key not valid'',
                     body_json = Inl (Error ''Unexpected token A'') \<rparr>),
       readability = (\<lambda>html. Inr (Some (Some ''Acme Kettle. Boils fast.''))) \<rparr>"

text \<open>An assessment of four criteria, as the rating form produces it.\<close>

definition criterion :: "string \<Rightarrow> rat \<Rightarrow> string \<Rightarrow> AssessmentCriterion" where
  "criterion nm r ns = \<lparr> criterion_name = nm, rating = r, criterion_notes = ns \<rparr>"




section \<open>Lemmas on strings\<close>

lemma join_Cons: "join sep (x # xs) = x @ concat (map (\<lambda>y. sep @ y) xs)"
  by (induction xs arbitrary: x) auto

lemma join_case:
  "join sep xs = (case xs of [] \<Rightarrow> [] | x # rest \<Rightarrow> x @ concat (map (\<lambda>y. sep @ y) rest))"
  by (cases xs) (simp_all add: join_Cons)

lemma join_map:
  "join sep (map g xs) =
     (case xs of [] \<Rightarrow> [] | x # rest \<Rightarrow> g x @ concat (map (\<lambda>y. sep @ g y) rest))"
  by (cases xs) (simp_all add: join_Cons comp_def)

lemma showNat_digit: "k < 10 \<Longrightarrow> showNat k = [char_of (48 + k)]"
  by (subst showNat.simps) simp

lemma showNat_step:
  "\<not> k < 10 \<Longrightarrow> showNat k = showNat (k div 10) @ [char_of (48 + k mod 10)]"
  by (subst showNat.simps) simp

lemma of_char_digit: "d < 10 \<Longrightarrow> (of_char (char_of (48 + d :: nat)) :: nat) = 48 + d"
  by simp

lemma showNat_decimal:
  "foldl (\<lambda>a c. 10 * a + ((of_char c :: nat) - 48)) 0 (showNat k) = k
   \<and> list_all (\<lambda>c. 48 \<le> (of_char c :: nat) \<and> (of_char c :: nat) \<le> 57) (showNat k)
   \<and> (k < 10 \<longrightarrow> length (showNat k) = 1)
   \<and> (10 \<le> k \<longrightarrow> hd (showNat k) \<noteq> CHR ''0'')"
proof (induction k rule: showNat.induct)
  case (1 n)
  show ?case
  proof (cases "n < 10")
    case True
    then show ?thesis
      by (simp add: showNat_digit of_char_digit)
  next
    case False
    have s: "showNat n = showNat (n div 10) @ [char_of (48 + n mod 10)]"
      by (rule showNat_step [OF False])
    have d: "(of_char (char_of (48 + n mod 10 :: nat)) :: nat) = 48 + n mod 10"
      by (rule of_char_digit) simp
    have ih: "foldl (\<lambda>a c. 10 * a + ((of_char c :: nat) - 48)) 0 (showNat (n div 10)) = n div 10"
      "list_all (\<lambda>c. 48 \<le> (of_char c :: nat) \<and> (of_char c :: nat) \<le> 57) (showNat (n div 10))"
      "10 \<le> n div 10 \<longrightarrow> hd (showNat (n div 10)) \<noteq> CHR ''0''"
      using 1 [OF False] by blast+
    have ne: "showNat (n div 10) \<noteq> []"
      by (cases "n div 10 < 10") (simp_all add: showNat_digit showNat_step)
    have h: "hd (showNat n) = hd (showNat (n div 10))"
      using ne by (simp add: s)
    have h0: "hd (showNat (n div 10)) \<noteq> CHR ''0''"
    proof (cases "10 \<le> n div 10")
      case True
      then show ?thesis using ih(3) by blast
    next
      case lt: False
      have pos: "0 < n div 10" using False by simp
      have "hd (showNat (n div 10)) = char_of (48 + n div 10)"
        using lt by (simp add: showNat_digit)
      moreover have "(of_char (char_of (48 + n div 10 :: nat)) :: nat) = 48 + n div 10"
        using lt by (intro of_char_digit) simp
      moreover have "(of_char CHR ''0'' :: nat) = 48"
        by simp
      ultimately show ?thesis
        using pos by (metis add_cancel_right_right less_numeral_extra(3))
    qed
    show ?thesis
      using False ih(1,2) h h0 d by (simp add: s)
  qed
qed


section \<open>Lemmas on the sort\<close>

lemma insort_cmp_two_classes:
  assumes cmp: "\<And>x y. cmp x y \<le> 0 \<longleftrightarrow> (P x \<or> \<not> P y)"
    and A: "\<forall>a\<in>set as. P a" and B: "\<forall>b\<in>set bs. \<not> P b"
  shows "insort_cmp cmp x (as @ bs) = (if P x then x # as @ bs else as @ x # bs)"
  using A
proof (induction as)
  case Nil
  show ?case using B cmp by (cases bs) auto
next
  case (Cons a as)
  then show ?case using cmp by auto
qed

lemma sort_cmp_two_classes:
  assumes cmp: "\<And>x y. cmp x y \<le> 0 \<longleftrightarrow> (P x \<or> \<not> P y)"
  shows "sort_cmp cmp xs = filter P xs @ filter (\<lambda>x. \<not> P x) xs"
proof (induction xs)
  case Nil
  show ?case by (simp add: sort_cmp_def)
next
  case (Cons x xs)
  have "sort_cmp cmp (x # xs) = insort_cmp cmp x (sort_cmp cmp xs)"
    by (simp add: sort_cmp_def)
  also have "\<dots> = insort_cmp cmp x (filter P xs @ filter (\<lambda>x. \<not> P x) xs)"
    by (simp only: Cons.IH)
  also have "\<dots> = (if P x then x # filter P xs @ filter (\<lambda>x. \<not> P x) xs
                     else filter P xs @ x # filter (\<lambda>x. \<not> P x) xs)"
    by (rule insort_cmp_two_classes [OF cmp]) auto
  finally show ?case by simp
qed

lemma insort_cmp_key:
  assumes "\<And>x y. cmp x y \<le> 0 \<longleftrightarrow> f x \<le> f y"
  shows "insort_cmp cmp x ys = insort_key f x ys"
  using assms by (induction ys) auto

lemma sort_cmp_key:
  assumes "\<And>x y. cmp x y \<le> 0 \<longleftrightarrow> f x \<le> f y"
  shows "sort_cmp cmp xs = sort_key f xs"
  by (induction xs) (simp_all add: sort_cmp_def insort_cmp_key [OF assms] sort_key_def)

lemma sorted_descending:
  "sorted (map (\<lambda>a. - f a) xs) \<Longrightarrow> sorted_wrt (\<lambda>a b. (f b :: int) \<le> f a) xs"
  by (induction xs) auto

section \<open>The entity classifier\<close>

lemma salienceThreshold_double: "roundDouble (1 / 10) = salienceThreshold"
  by code_simp

lemma salient_iff:
  "salient e \<longleftrightarrow> (case salience e of None \<Rightarrow> False | Some s \<Rightarrow> s > salienceThreshold)"
  by (auto simp: salient_def salienceThreshold_def split: option.splits)

lemma storeSpecification_fields [simp]:
  "name (storeSpecification p nm) = name p"
  "price (storeSpecification p nm) = price p"
  "description (storeSpecification p nm) = description p"
  "features (storeSpecification p nm) = features p"
  by (simp_all add: storeSpecification_def split: list.splits)

lemma name_classifyEntity:
  "name (classifyEntity p e) =
     (if name p = [] \<and> qualifiesAsName e then nameOrEmpty (Some e) else name p)"
  by (auto simp: classifyEntity_def qualifiesAsName_def salient_iff nameOrEmpty_def Let_def
      split: option.splits)

lemma price_classifyEntity:
  "price (classifyEntity p e) =
     (if price p = [] \<and> qualifiesAsPrice e then nameOrEmpty (Some e) else price p)"
  by (auto simp: classifyEntity_def qualifiesAsPrice_def nameOrEmpty_def Let_def
      split: option.splits)

lemma qualifiesAsName_nonempty: "qualifiesAsName e \<Longrightarrow> nameOrEmpty (Some e) \<noteq> []"
  by (auto simp: qualifiesAsName_def nameOrEmpty_def split: option.splits)

lemma qualifiesAsPrice_nonempty: "qualifiesAsPrice e \<Longrightarrow> nameOrEmpty (Some e) \<noteq> []"
  by (auto simp: qualifiesAsPrice_def nameOrEmpty_def split: option.splits)

lemma classifyEntities_Cons:
  "classifyEntities p (e # es) = classifyEntities (classifyEntity p e) es"
  by (simp add: classifyEntities_def)

lemma name_classifyEntities:
  "name (classifyEntities p es) =
     (if name p = [] then nameOrEmpty (find qualifiesAsName es) else name p)"
proof (induction es arbitrary: p)
  case Nil
  show ?case by (simp add: classifyEntities_def nameOrEmpty_def)
next
  case (Cons e es)
  show ?case
    unfolding classifyEntities_Cons Cons.IH name_classifyEntity
    using qualifiesAsName_nonempty [of e] by simp
qed

lemma price_classifyEntities:
  "price (classifyEntities p es) =
     (if price p = [] then nameOrEmpty (find qualifiesAsPrice es) else price p)"
proof (induction es arbitrary: p)
  case Nil
  show ?case by (simp add: classifyEntities_def nameOrEmpty_def)
next
  case (Cons e es)
  show ?case
    unfolding classifyEntities_Cons Cons.IH price_classifyEntity
    using qualifiesAsPrice_nonempty [of e] by simp
qed

lemma name_price_prioritizeFeatures:
  "name (prioritizeFeatures prefs p) = name p"
  "price (prioritizeFeatures prefs p) = price p"
  by (simp_all add: prioritizeFeatures_def split: option.splits)

text \<open>
  C1. Whatever the entities, the name of the result is the name of the first entity, in
  input order, of type CONSUMER_GOOD with salience above 0.1 and a non-empty name, and
  the price is the name of the first entity of type PRICE with a non-empty name, whatever
  its salience; each is the empty string when there is no such entity. Once the loop has
  assigned a name or a price, no later entity changes it.
\<close>

theorem extractProductInfo_first_wins:
  "name (extractProductInfo es prefs) = nameOrEmpty (find qualifiesAsName es)
   \<and> price (extractProductInfo es prefs) = nameOrEmpty (find qualifiesAsPrice es)
   \<and> (name pinfo \<noteq> [] \<longrightarrow> name (classifyEntities pinfo later) = name pinfo)
   \<and> (price pinfo \<noteq> [] \<longrightarrow> price (classifyEntities pinfo later) = price pinfo)"
  by (simp add: extractProductInfo_def name_price_prioritizeFeatures name_classifyEntities
      price_classifyEntities initialProductInfo_def)

theorem extractProductInfo_first_wins_witness:
  "name (extractProductInfo [widget, gadget, priceTag ''$5'', priceTag ''$7''] None) = ''Widget''
   \<and> price (extractProductInfo [widget, gadget, priceTag ''$5'', priceTag ''$7''] None) = ''$5''
   \<and> name (classifyEntities (classifyEntities initialProductInfo [widget, priceTag ''$5''])
              [gadget, priceTag ''$7'']) = ''Widget''
   \<and> price (classifyEntities (classifyEntities initialProductInfo [widget, priceTag ''$5''])
              [gadget, priceTag ''$7'']) = ''$5''"
  using extractProductInfo_first_wins [of "[widget, gadget, priceTag ''$5'', priceTag ''$7'']" None
      "classifyEntities initialProductInfo [widget, priceTag ''$5'']" "[gadget, priceTag ''$7'']"]
  by (simp add: widget_def gadget_def priceTag_def qualifiesAsName_def qualifiesAsPrice_def
      nameOrEmpty_def salienceThreshold_def classifyEntities_def classifyEntity_def
      initialProductInfo_def salient_def mentioned_def)


lemma featureCompare_le:
  "featureCompare cs a b \<le> 0 \<longleftrightarrow> (matchesPreference cs a \<or> \<not> matchesPreference cs b)"
  by (simp add: featureCompare_def)

lemma matchesPreference_iff:
  "matchesPreference cs a \<longleftrightarrow> (\<exists>c\<in>set cs. includesStr (toLowerCase a) (toLowerCase c))"
  by (simp add: matchesPreference_def list_ex_iff)

lemma features_prioritizeFeatures:
  "criteriaOf prefs = Some cs \<Longrightarrow>
     features (prioritizeFeatures prefs pinfo) =
       filter (matchesPreference cs) (features pinfo)
       @ filter (\<lambda>f. \<not> matchesPreference cs f) (features pinfo)"
  by (simp add: prioritizeFeatures_def sort_cmp_two_classes [OF featureCompare_le])

text \<open>
  C5. When the preferences carry a non-empty list of criteria, the features after the
  sort are the features that contain some criterion (both sides lower-cased), in their
  original order, followed by the features that contain none, in their original order.
  This holds for the sort step on any product information and so for the result of the
  classifier on any entities.
\<close>

theorem prioritizeFeatures_stable_partition:
  assumes "evaluationCriteria p = Some cs" and "cs \<noteq> []"
  shows "features (prioritizeFeatures (Some p) pinfo) =
           filter (\<lambda>f. \<exists>c\<in>set cs. includesStr (toLowerCase f) (toLowerCase c)) (features pinfo)
           @ filter (\<lambda>f. \<not> (\<exists>c\<in>set cs. includesStr (toLowerCase f) (toLowerCase c)))
               (features pinfo)
       \<and> features (extractProductInfo es (Some p)) =
           filter (\<lambda>f. \<exists>c\<in>set cs. includesStr (toLowerCase f) (toLowerCase c))
             (features (classifyEntities initialProductInfo es))
           @ filter (\<lambda>f. \<not> (\<exists>c\<in>set cs. includesStr (toLowerCase f) (toLowerCase c)))
               (features (classifyEntities initialProductInfo es))"
proof -
  have c: "criteriaOf (Some p) = Some cs"
    using assms by (simp add: criteriaOf_def)
  show ?thesis
    unfolding extractProductInfo_def features_prioritizeFeatures [OF c] matchesPreference_iff
    by simp
qed

theorem prioritizeFeatures_stable_partition_witness:
  "features (extractProductInfo kettleEntities (Some expertUser)) =
     [''Long Battery life'', ''Automatic shut-off'']"
proof -
  have e: "evaluationCriteria expertUser = Some [''battery'']" and n: "[''battery''] \<noteq> []"
    by (simp_all add: expertUser_def)
  have f: "features (classifyEntities initialProductInfo kettleEntities) =
      [''Automatic shut-off'', ''Long Battery life'']"
    by code_simp
  have l: "toLowerCase ''Automatic shut-off'' = ''automatic shut-off''"
    "toLowerCase ''Long Battery life'' = ''long battery life''"
    "toLowerCase ''battery'' = ''battery''"
    by code_simp+
  show ?thesis
    using prioritizeFeatures_stable_partition [OF e n, of initialProductInfo kettleEntities]
    by (simp add: f l)
qed

section \<open>The description selector\<close>

lemma looksLike_nonempty: "looksLikeDescription t \<Longrightarrow> t \<noteq> []"
  by (auto simp: looksLikeDescription_def)

lemma collectDescriptions_filter:
  "foldl collectDescription acc ss =
     acc @ filter looksLikeDescription
             (concat (map (\<lambda>s. case textOf s of None \<Rightarrow> [] | Some t \<Rightarrow> [t]) ss))"
  by (induction ss arbitrary: acc)
    (auto simp: collectDescription_def split: option.splits dest: looksLike_nonempty)

lemma collectDescriptions_eq:
  "collectDescriptions ss = filter looksLikeDescription (List.map_filter textOf ss)"
proof -
  have "concat (map (\<lambda>s. case textOf s of None \<Rightarrow> [] | Some t \<Rightarrow> [t]) ss)
      = List.map_filter textOf ss"
    by (induction ss) (auto simp: List.map_filter_simps split: option.splits)
  then show ?thesis
    by (simp add: collectDescriptions_def collectDescriptions_filter)
qed

lemma looksLikeDescription_iff:
  "looksLikeDescription t \<longleftrightarrow>
     length t > 40
     \<and> (\<forall>w\<in>set [''click'', ''login'', ''sign in'', ''cookie'', ''review by'']. \<not> includesStr t w)"
  by (simp add: looksLikeDescription_def)

lemma set_map_filter: "set (List.map_filter f xs) = {y. \<exists>x\<in>set xs. f x = Some y}"
  by (induction xs) (auto simp: List.map_filter_simps split: option.splits)

lemma descriptionCompare_le:
  "descriptionCompare cs a b \<le> 0 \<longleftrightarrow> - relevanceScore cs a \<le> - relevanceScore cs b"
  by (simp add: descriptionCompare_def)

lemma sort_descriptions:
  "sort_cmp (descriptionCompare cs) ds = sort_key (\<lambda>a. - relevanceScore cs a) ds"
  by (rule sort_cmp_key [OF descriptionCompare_le])

lemma rankDescriptions_sort:
  "criteriaOf prefs = Some cs \<Longrightarrow>
     rankDescriptions prefs ds = sort_key (\<lambda>a. - relevanceScore cs a) ds"
  by (simp add: rankDescriptions_def sort_descriptions)

lemma mset_rankDescriptions: "mset (rankDescriptions prefs ds) = mset ds"
  by (cases "criteriaOf prefs") (simp_all add: rankDescriptions_def sort_descriptions)

lemma foldl_count:
  "foldl (\<lambda>score c. score + (if Q c then 1 else 0)) (k::int) cs = k + int (length (filter Q cs))"
  by (induction cs arbitrary: k) auto

lemma relevanceScore_count:
  "relevanceScore cs a =
     int (length (filter (\<lambda>c. includesStr (toLowerCase a) (toLowerCase c)) cs))"
  by (simp add: relevanceScore_def foldl_count)

text \<open>
  C3. With or without preferences, the output of the description selector holds exactly
  the sentence texts that are longer than 40 characters and contain none of the literals
  "click", "login", "sign in", "cookie", "review by" as they are written (a
  case-sensitive substring test), each as often as it occurs in the input: the sort only
  reorders them. A text of length at most 40, or with one of the literals in it, is not
  in the output.
\<close>

theorem extractDescriptions_selects:
  "mset (extractDescriptions ss prefs) =
     mset (filter (\<lambda>t. length t > 40
        \<and> (\<forall>w\<in>set [''click'', ''login'', ''sign in'', ''cookie'', ''review by''].
              \<not> includesStr t w))
       (List.map_filter textOf ss))
   \<and> (t \<in> set (extractDescriptions ss prefs) \<longleftrightarrow>
        (\<exists>s\<in>set ss. textOf s = Some t) \<and> length t > 40
        \<and> (\<forall>w\<in>set [''click'', ''login'', ''sign in'', ''cookie'', ''review by''].
              \<not> includesStr t w))"
proof -
  have m: "mset (extractDescriptions ss prefs)
      = mset (filter looksLikeDescription (List.map_filter textOf ss))"
    by (simp add: extractDescriptions_def mset_rankDescriptions collectDescriptions_eq)
  have "set (extractDescriptions ss prefs)
      = set (filter looksLikeDescription (List.map_filter textOf ss))"
    using m by (metis set_mset_mset)
  then have s: "t \<in> set (extractDescriptions ss prefs) \<longleftrightarrow>
      (\<exists>s\<in>set ss. textOf s = Some t) \<and> looksLikeDescription t"
    by (auto simp: set_map_filter)
  show ?thesis
    using m s unfolding looksLikeDescription_iff by simp
qed

theorem extractDescriptions_selects_witness:
  "''The Acme Kettle boils a full jug of water in three minutes.''
     \<in> set (extractDescriptions kettleSentences (Some expertUser))
   \<and> ''Please sign in to see the price for members of the club.''
     \<notin> set (extractDescriptions kettleSentences (Some expertUser))
   \<and> ''Buy now.'' \<notin> set (extractDescriptions kettleSentences (Some expertUser))"
proof -
  have t: "map textOf kettleSentences =
     [Some ''The Acme Kettle boils a full jug of water in three minutes.'',
      Some ''Please sign in to see the price for members of the club.'',
      Some ''Buy now.'',
      Some ''A rechargeable BATTERY in the base keeps the water warm.'']"
    by (simp add: kettleSentences_def plainSentence_def textOf_def)
  have ex: "(\<exists>s\<in>set kettleSentences. textOf s = Some x) \<longleftrightarrow> Some x \<in> set (map textOf kettleSentences)"
    for x by (force simp: image_iff)
  show ?thesis
    using extractDescriptions_selects [of kettleSentences "Some expertUser"
        "''The Acme Kettle boils a full jug of water in three minutes.''"]
      extractDescriptions_selects [of kettleSentences "Some expertUser"
        "''Please sign in to see the price for members of the club.''"]
      extractDescriptions_selects [of kettleSentences "Some expertUser" "''Buy now.''"]
    unfolding ex t by simp
qed

text \<open>
  C6. When the preferences carry a non-empty list of criteria, the selector returns the
  filtered candidates sorted by relevance score, highest first, where the score of a
  candidate is the number of criteria that occur in it (both sides lower-cased). The
  result is a rearrangement of the candidates, and the candidates of any one score keep
  their original order. For the criteria ["battery"], the candidates that contain
  "battery" in any letter case come first, in their order, then the others, in theirs.
\<close>

theorem rankDescriptions_by_relevance:
  assumes "evaluationCriteria p = Some cs" and "cs \<noteq> []"
  shows "extractDescriptions ss (Some p) = rankDescriptions (Some p) (collectDescriptions ss)
   \<and> mset (rankDescriptions (Some p) ds) = mset ds
   \<and> sorted_wrt (\<lambda>a b. relevanceScore cs b \<le> relevanceScore cs a) (rankDescriptions (Some p) ds)
   \<and> filter (\<lambda>d. relevanceScore cs d = k) (rankDescriptions (Some p) ds)
        = filter (\<lambda>d. relevanceScore cs d = k) ds
   \<and> relevanceScore cs d
        = int (length (filter (\<lambda>c. includesStr (toLowerCase d) (toLowerCase c)) cs))
   \<and> (cs = [''battery''] \<longrightarrow> rankDescriptions (Some p) ds
        = filter (\<lambda>d. includesStr (toLowerCase d) ''battery'') ds
          @ filter (\<lambda>d. \<not> includesStr (toLowerCase d) ''battery'') ds)"
proof -
  have c: "criteriaOf (Some p) = Some cs"
    using assms by (simp add: criteriaOf_def)
  have r: "rankDescriptions (Some p) ds = sort_key (\<lambda>a. - relevanceScore cs a) ds"
    by (rule rankDescriptions_sort [OF c])
  have s: "sorted_wrt (\<lambda>a b. relevanceScore cs b \<le> relevanceScore cs a)
      (rankDescriptions (Some p) ds)"
    unfolding r by (rule sorted_descending) simp
  have "filter (\<lambda>d. - relevanceScore cs d = - k) (sort_key (\<lambda>a. - relevanceScore cs a) ds)
          = filter (\<lambda>d. - relevanceScore cs d = - k) ds"
    by (rule sort_key_stable)
  then have st: "filter (\<lambda>d. relevanceScore cs d = k) (rankDescriptions (Some p) ds)
        = filter (\<lambda>d. relevanceScore cs d = k) ds"
    unfolding r by simp
  have b: "rankDescriptions (Some p) ds
        = filter (\<lambda>d. includesStr (toLowerCase d) ''battery'') ds
          @ filter (\<lambda>d. \<not> includesStr (toLowerCase d) ''battery'') ds" if "cs = [''battery'']"
  proof -
    have low: "toLowerCase ''battery'' = ''battery''"
      by code_simp
    have le: "descriptionCompare cs x y \<le> 0 \<longleftrightarrow>
        (includesStr (toLowerCase x) ''battery'' \<or> \<not> includesStr (toLowerCase y) ''battery'')"
      for x y
      using that by (simp add: descriptionCompare_def relevanceScore_def low)
    show ?thesis
      using c by (simp add: rankDescriptions_def sort_cmp_two_classes [OF le])
  qed
  show ?thesis
    using s st b by (simp add: extractDescriptions_def mset_rankDescriptions relevanceScore_count)
qed

theorem rankDescriptions_by_relevance_witness:
  "extractDescriptions kettleSentences (Some expertUser) =
     [''A rechargeable BATTERY in the base keeps the water warm.'',
      ''The Acme Kettle boils a full jug of water in three minutes.'']"
proof -
  have e: "evaluationCriteria expertUser = Some [''battery'']" and n: "[''battery''] \<noteq> []"
    by (simp_all add: expertUser_def)
  have c: "collectDescriptions kettleSentences =
     [''The Acme Kettle boils a full jug of water in three minutes.'',
      ''A rechargeable BATTERY in the base keeps the water warm.'']"
    by code_simp
  have l: "toLowerCase ''The Acme Kettle boils a full jug of water in three minutes.''
      = ''the acme kettle boils a full jug of water in three minutes.''"
    "toLowerCase ''A rechargeable BATTERY in the base keeps the water warm.''
      = ''a rechargeable battery in the base keeps the water warm.''"
    by code_simp+
  show ?thesis
    using rankDescriptions_by_relevance [OF e n, of kettleSentences
        "collectDescriptions kettleSentences"]
    by (simp add: c l)
qed


section \<open>The stages and the propagation of failures\<close>

lemma fst_io_bind:
  "fst (io_bind m f) = (case fst m of Inl e \<Rightarrow> Inl e | Inr x \<Rightarrow> fst (f x))"
  by (auto simp: io_bind_def split: prod.splits sum.splits)

lemma fst_io_catch:
  "fst (io_catch m h) = (case fst m of Inl e \<Rightarrow> fst (h e) | Inr x \<Rightarrow> Inr x)"
  by (auto simp: io_catch_def split: prod.splits sum.splits)

lemma fst_io_simps:
  "fst (io_throw e) = Inl e" "fst (io_return x) = Inr x" "fst (io_lift r) = r"
  "fst (io_fetch w req) = fetch w req"
  by (simp_all add: io_throw_def io_return_def io_lift_def io_fetch_def)

lemma annotate_no_key:
  "GOOGLE_CLOUD_API_KEY w = None \<or> GOOGLE_CLOUD_API_KEY w = Some [] \<Longrightarrow>
     annotate w endpoint txt = (Inl (Error ''Google Cloud API key is not configured''), [])"
  by (auto simp: annotate_def io_throw_def)

text \<open>
  C7. When the variable GOOGLE_CLOUD_API_KEY is not set (or is the empty string), each of
  analyzeEntities and analyzeSyntax rejects with an error whose message is that of the
  operation followed by "Google Cloud API key is not configured", and the list of
  requests it has sent is empty: the failure comes before any call of fetch.
\<close>

theorem annotation_requires_credential:
  assumes "GOOGLE_CLOUD_API_KEY w = None \<or> GOOGLE_CLOUD_API_KEY w = Some []"
  shows "analyzeEntities w txt =
           (Inl (Error (''Failed to analyze entities: ''
                        @ ''Google Cloud API key is not configured'')), [])
       \<and> analyzeSyntax w txt =
           (Inl (Error (''Failed to analyze syntax: ''
                        @ ''Google Cloud API key is not configured'')), [])"
  by (simp add: analyzeEntities_def analyzeSyntax_def annotate_no_key [OF assms]
      io_catch_def io_throw_def causeText_def)

theorem annotation_requires_credential_witness:
  "snd (analyzeEntities brokenWorld ''Acme Kettle. Boils fast.'') = []
   \<and> snd (analyzeSyntax brokenWorld ''Acme Kettle. Boils fast.'') = []
   \<and> fst (analyzeEntities brokenWorld ''Acme Kettle. Boils fast.'') =
       Inl (Error ''Failed to analyze entities: Google Cloud API key is not configured'')"
proof -
  have k: "GOOGLE_CLOUD_API_KEY brokenWorld = None \<or> GOOGLE_CLOUD_API_KEY brokenWorld = Some []"
    by (simp add: brokenWorld_def)
  show ?thesis
    using annotation_requires_credential [OF k, of "''Acme Kettle. Boils fast.''"] by simp
qed

lemma extractTextFromUrl_cases:
  "fst (extractTextFromUrl w u prefs) =
     (case fst (fetchHtmlFromUrl w u) of
        Inl e \<Rightarrow> Inl (Error (''Failed to extract text from URL: '' @ causeText e))
      | Inr html \<Rightarrow>
     (case fst (extractMainContent w html) of
        Inl e \<Rightarrow> Inl (Error (''Failed to extract text from URL: '' @ causeText e))
      | Inr mainContent \<Rightarrow>
     (case fst (analyzeEntities w (take 5000 mainContent)) of
        Inl e \<Rightarrow> Inl (Error (''Failed to extract text from URL: '' @ causeText e))
      | Inr entityResponse \<Rightarrow>
     (case fst (analyzeSyntax w (take 5000 mainContent)) of
        Inl e \<Rightarrow> Inl (Error (''Failed to extract text from URL: '' @ causeText e))
      | Inr syntaxResponse \<Rightarrow>
          Inr (assembleReport
                 (extractProductInfo (orEmpty (entities entityResponse)) prefs)
                 (extractDescriptions (orEmpty (sentences syntaxResponse)) prefs)
                 mainContent prefs)))))"
  by (simp add: extractTextFromUrl_def fst_io_catch fst_io_bind fst_io_simps Let_def
      split: sum.splits)

lemma io_catch_wrap_error:
  "fst (io_catch m (\<lambda>error. io_throw (Error (pre @ causeText error)))) = Inl e \<Longrightarrow>
     \<exists>cause. e = Error (pre @ cause)"
  by (auto simp: fst_io_catch fst_io_simps split: sum.splits)

lemma fetchHtmlFromUrl_outcome:
  "fst (fetchHtmlFromUrl w u) =
     (case fetch w \<lparr> req_url = u, req_method = ''GET'',
                      req_headers = [(''User-Agent'',
                        ''Mozilla/5.0 (compatible; ProductEvaluationBot/1.0)'')],
                      req_content = None \<rparr> of
        Inl rejection \<Rightarrow>
          Inl (Error (''Failed to fetch content from URL: '' @ causeText rejection))
      | Inr response \<Rightarrow>
          if ok response
          then (case body_text response of
                  Inl rejection \<Rightarrow>
                    Inl (Error (''Failed to fetch content from URL: '' @ causeText rejection))
                | Inr html \<Rightarrow> Inr html)
          else Inl (Error (''Failed to fetch content from URL: '' @ ''Failed to fetch URL: ''
                     @ showNat (status response) @ '' '' @ statusText response)))"
  by (simp add: fetchHtmlFromUrl_def getRequest_def fst_io_catch fst_io_bind fst_io_simps
      causeText_def split: sum.splits)

lemma extractMainContent_outcome:
  "fst (extractMainContent w html) =
     (case readability w html of
        Inl thrown \<Rightarrow> Inl (Error (''Failed to extract main content: '' @ causeText thrown))
      | Inr None \<Rightarrow>
          Inl (Error (''Failed to extract main content: ''
                 @ ''Failed to extract main content from HTML''))
      | Inr (Some None) \<Rightarrow>
          Inl (Error (''Failed to extract main content: ''
                 @ ''Failed to extract main content from HTML''))
      | Inr (Some (Some textContent)) \<Rightarrow>
          if textContent = []
          then Inl (Error (''Failed to extract main content: ''
                      @ ''Failed to extract main content from HTML''))
          else Inr textContent)"
  by (simp add: extractMainContent_def fst_io_catch fst_io_bind fst_io_simps
      causeText_def split: sum.splits option.splits)

lemma annotate_outcome:
  "fst (io_catch (annotate w endpoint doc)
          (\<lambda>error. io_throw (Error (stage @ causeText error)))) =
     (case GOOGLE_CLOUD_API_KEY w of
        None \<Rightarrow> Inl (Error (stage @ ''Google Cloud API key is not configured''))
      | Some apiKey \<Rightarrow>
          if apiKey = []
          then Inl (Error (stage @ ''Google Cloud API key is not configured''))
          else
            (case fetch w \<lparr> req_url = ''https://language.googleapis.com/v1/documents:''
                                       @ endpoint @ ''?key='' @ apiKey,
                             req_method = ''POST'',
                             req_headers = [(''Content-Type'', ''application/json'')],
                             req_content = Some doc \<rparr> of
               Inl rejection \<Rightarrow> Inl (Error (stage @ causeText rejection))
             | Inr response \<Rightarrow>
                 if ok response
                 then (case body_json response of
                         Inl rejection \<Rightarrow> Inl (Error (stage @ causeText rejection))
                       | Inr result \<Rightarrow> Inr result)
                 else (case body_text response of
                         Inl rejection \<Rightarrow> Inl (Error (stage @ causeText rejection))
                       | Inr errorText \<Rightarrow>
                           Inl (Error (stage @ ''Google Cloud API error: ''
                                  @ showNat (status response) @ '' '' @ statusText response
                                  @ '' - '' @ errorText)))))"
  by (simp add: annotate_def fst_io_catch fst_io_bind fst_io_simps
      causeText_def split: sum.splits option.splits)

lemma extractTextFromUrl_outcome:
  "fst (extractTextFromUrl w u prefs) =
     (case fst (fetchHtmlFromUrl w u) of
        Inl e \<Rightarrow> Inl (Error (''Failed to extract text from URL: '' @ causeText e))
      | Inr html \<Rightarrow>
     (case fst (extractMainContent w html) of
        Inl e \<Rightarrow> Inl (Error (''Failed to extract text from URL: '' @ causeText e))
      | Inr mainContent \<Rightarrow>
     (case fst (analyzeEntities w (take 5000 mainContent)) of
        Inl e \<Rightarrow> Inl (Error (''Failed to extract text from URL: '' @ causeText e))
      | Inr entityResponse \<Rightarrow>
     (case fst (analyzeSyntax w (take 5000 mainContent)) of
        Inl e \<Rightarrow> Inl (Error (''Failed to extract text from URL: '' @ causeText e))
      | Inr syntaxResponse \<Rightarrow>
          Inr (assembleReport
                 (extractProductInfo
                    (case entities entityResponse of None \<Rightarrow> [] | Some es \<Rightarrow> es) prefs)
                 (extractDescriptions
                    (case sentences syntaxResponse of None \<Rightarrow> [] | Some ss \<Rightarrow> ss) prefs)
                 mainContent prefs)))))"
  unfolding extractTextFromUrl_cases orEmpty_def ..

lemma extractTextFromUrl_error_shape:
  assumes "fst (extractTextFromUrl w u prefs) = Inl e"
  shows "\<exists>stage cause.
           stage \<in> set [''Failed to fetch content from URL: '',
                         ''Failed to extract main content: '',
                         ''Failed to analyze entities: '', ''Failed to analyze syntax: '']
           \<and> e = Error (''Failed to extract text from URL: '' @ stage @ cause)"
proof -
  have a: "fst (fetchHtmlFromUrl w u) = Inl x \<Longrightarrow>
        \<exists>cause. x = Error (''Failed to fetch content from URL: '' @ cause)" for x
    unfolding fetchHtmlFromUrl_def by (blast dest: io_catch_wrap_error)
  have b: "fst (extractMainContent w html) = Inl x \<Longrightarrow>
        \<exists>cause. x = Error (''Failed to extract main content: '' @ cause)" for x html
    unfolding extractMainContent_def by (blast dest: io_catch_wrap_error)
  have c: "fst (analyzeEntities w doc) = Inl x \<Longrightarrow>
        \<exists>cause. x = Error (''Failed to analyze entities: '' @ cause)" for x doc
    unfolding analyzeEntities_def by (blast dest: io_catch_wrap_error)
  have d: "fst (analyzeSyntax w doc) = Inl x \<Longrightarrow>
        \<exists>cause. x = Error (''Failed to analyze syntax: '' @ cause)" for x doc
    unfolding analyzeSyntax_def by (blast dest: io_catch_wrap_error)
  show ?thesis
  proof (cases "fst (fetchHtmlFromUrl w u)")
    case (Inl x)
    then have "e = Error (''Failed to extract text from URL: '' @ causeText x)"
      using assms by (simp add: extractTextFromUrl_cases)
    moreover obtain cause where "x = Error (''Failed to fetch content from URL: '' @ cause)"
      using a [OF Inl] by blast
    ultimately have "e = Error (''Failed to extract text from URL: '' @ ''Failed to fetch content from URL: '' @ cause)"
      by (simp add: causeText_def)
    then show ?thesis
      by (intro exI [of _ "''Failed to fetch content from URL: ''"] exI [of _ cause]) simp
  next
    case html: (Inr html)
    show ?thesis
    proof (cases "fst (extractMainContent w html)")
      case (Inl x)
      then have "e = Error (''Failed to extract text from URL: '' @ causeText x)"
        using assms html by (simp add: extractTextFromUrl_cases)
      moreover obtain cause where "x = Error (''Failed to extract main content: '' @ cause)"
        using b [OF Inl] by blast
      ultimately have "e = Error (''Failed to extract text from URL: '' @ ''Failed to extract main content: '' @ cause)"
        by (simp add: causeText_def)
      then show ?thesis
        by (intro exI [of _ "''Failed to extract main content: ''"] exI [of _ cause]) simp
    next
      case mc: (Inr mc)
      show ?thesis
      proof (cases "fst (analyzeEntities w (take 5000 mc))")
        case (Inl x)
        then have "e = Error (''Failed to extract text from URL: '' @ causeText x)"
          using assms html mc by (simp add: extractTextFromUrl_cases)
        moreover obtain cause where "x = Error (''Failed to analyze entities: '' @ cause)"
          using c [OF Inl] by blast
        ultimately have "e = Error (''Failed to extract text from URL: '' @ ''Failed to analyze entities: '' @ cause)"
          by (simp add: causeText_def)
        then show ?thesis
          by (intro exI [of _ "''Failed to analyze entities: ''"] exI [of _ cause]) simp
      next
        case er: (Inr er)
        show ?thesis
        proof (cases "fst (analyzeSyntax w (take 5000 mc))")
          case (Inl x)
          then have "e = Error (''Failed to extract text from URL: '' @ causeText x)"
            using assms html mc er by (simp add: extractTextFromUrl_cases)
          moreover obtain cause where "x = Error (''Failed to analyze syntax: '' @ cause)"
            using d [OF Inl] by blast
          ultimately have "e = Error (''Failed to extract text from URL: '' @ ''Failed to analyze syntax: '' @ cause)"
            by (simp add: causeText_def)
          then show ?thesis
            by (intro exI [of _ "''Failed to analyze syntax: ''"] exI [of _ cause]) simp
        next
          case (Inr sr)
          then show ?thesis
            using assms html mc er by (simp add: extractTextFromUrl_cases)
        qed
      qed
    qed
  qed
qed

text \<open>
  C8. The outcome of extractTextFromUrl is decided by the first stage that fails, in the
  order fetch, main content, entities, syntax: the caller then gets one error whose
  message is "Failed to extract text from URL: " followed by the message of the error of
  that stage; when no stage fails the caller gets the whole report, and there is no
  third outcome. The error of a stage is, in every way the stage can fail, the
  description of the stage followed by the cause: the message of what fetch, the body
  reader or the parser threw (the rendering of a thrown value that is not an Error), the
  status and status text of a response that is not ok (with the body text for the
  annotation service), or the fixed text of a missing key or a missing article. So the
  message the caller sees is the top-level prefix, the description of the failing stage,
  and the cause.
\<close>

theorem extractTextFromUrl_wraps_failures:
  "fst (extractTextFromUrl w u prefs) =
     (case fst (fetchHtmlFromUrl w u) of
        Inl e \<Rightarrow> Inl (Error (''Failed to extract text from URL: '' @ causeText e))
      | Inr html \<Rightarrow>
     (case fst (extractMainContent w html) of
        Inl e \<Rightarrow> Inl (Error (''Failed to extract text from URL: '' @ causeText e))
      | Inr mainContent \<Rightarrow>
     (case fst (analyzeEntities w (take 5000 mainContent)) of
        Inl e \<Rightarrow> Inl (Error (''Failed to extract text from URL: '' @ causeText e))
      | Inr entityResponse \<Rightarrow>
     (case fst (analyzeSyntax w (take 5000 mainContent)) of
        Inl e \<Rightarrow> Inl (Error (''Failed to extract text from URL: '' @ causeText e))
      | Inr syntaxResponse \<Rightarrow>
          Inr (assembleReport
                 (extractProductInfo
                    (case entities entityResponse of None \<Rightarrow> [] | Some es \<Rightarrow> es) prefs)
                 (extractDescriptions
                    (case sentences syntaxResponse of None \<Rightarrow> [] | Some ss \<Rightarrow> ss) prefs)
                 mainContent prefs)))))
   \<and> fst (fetchHtmlFromUrl w u) =
     (case fetch w \<lparr> req_url = u, req_method = ''GET'',
                      req_headers = [(''User-Agent'',
                        ''Mozilla/5.0 (compatible; ProductEvaluationBot/1.0)'')],
                      req_content = None \<rparr> of
        Inl rejection \<Rightarrow>
          Inl (Error (''Failed to fetch content from URL: '' @ causeText rejection))
      | Inr response \<Rightarrow>
          if ok response
          then (case body_text response of
                  Inl rejection \<Rightarrow>
                    Inl (Error (''Failed to fetch content from URL: '' @ causeText rejection))
                | Inr html \<Rightarrow> Inr html)
          else Inl (Error (''Failed to fetch content from URL: '' @ ''Failed to fetch URL: ''
                     @ showNat (status response) @ '' '' @ statusText response)))
   \<and> fst (extractMainContent w html) =
     (case readability w html of
        Inl thrown \<Rightarrow> Inl (Error (''Failed to extract main content: '' @ causeText thrown))
      | Inr None \<Rightarrow>
          Inl (Error (''Failed to extract main content: ''
                 @ ''Failed to extract main content from HTML''))
      | Inr (Some None) \<Rightarrow>
          Inl (Error (''Failed to extract main content: ''
                 @ ''Failed to extract main content from HTML''))
      | Inr (Some (Some textContent)) \<Rightarrow>
          if textContent = []
          then Inl (Error (''Failed to extract main content: ''
                      @ ''Failed to extract main content from HTML''))
          else Inr textContent)
   \<and> fst (analyzeEntities w doc) =
     (case GOOGLE_CLOUD_API_KEY w of
        None \<Rightarrow>
          Inl (Error (''Failed to analyze entities: '' @ ''Google Cloud API key is not configured''))
      | Some apiKey \<Rightarrow>
          if apiKey = []
          then Inl (Error (''Failed to analyze entities: '' @ ''Google Cloud API key is not configured''))
          else
            (case fetch w \<lparr> req_url = ''https://language.googleapis.com/v1/documents:''
                                       @ ''analyzeEntities'' @ ''?key='' @ apiKey,
                             req_method = ''POST'',
                             req_headers = [(''Content-Type'', ''application/json'')],
                             req_content = Some doc \<rparr> of
               Inl rejection \<Rightarrow> Inl (Error (''Failed to analyze entities: '' @ causeText rejection))
             | Inr response \<Rightarrow>
                 if ok response
                 then (case body_json response of
                         Inl rejection \<Rightarrow>
                           Inl (Error (''Failed to analyze entities: '' @ causeText rejection))
                       | Inr result \<Rightarrow> Inr result)
                 else (case body_text response of
                         Inl rejection \<Rightarrow>
                           Inl (Error (''Failed to analyze entities: '' @ causeText rejection))
                       | Inr errorText \<Rightarrow>
                           Inl (Error (''Failed to analyze entities: '' @ ''Google Cloud API error: ''
                                  @ showNat (status response) @ '' '' @ statusText response
                                  @ '' - '' @ errorText)))))
   \<and> fst (analyzeSyntax w doc) =
     (case GOOGLE_CLOUD_API_KEY w of
        None \<Rightarrow>
          Inl (Error (''Failed to analyze syntax: '' @ ''Google Cloud API key is not configured''))
      | Some apiKey \<Rightarrow>
          if apiKey = []
          then Inl (Error (''Failed to analyze syntax: '' @ ''Google Cloud API key is not configured''))
          else
            (case fetch w \<lparr> req_url = ''https://language.googleapis.com/v1/documents:''
                                       @ ''analyzeSyntax'' @ ''?key='' @ apiKey,
                             req_method = ''POST'',
                             req_headers = [(''Content-Type'', ''application/json'')],
                             req_content = Some doc \<rparr> of
               Inl rejection \<Rightarrow> Inl (Error (''Failed to analyze syntax: '' @ causeText rejection))
             | Inr response \<Rightarrow>
                 if ok response
                 then (case body_json response of
                         Inl rejection \<Rightarrow>
                           Inl (Error (''Failed to analyze syntax: '' @ causeText rejection))
                       | Inr result \<Rightarrow> Inr result)
                 else (case body_text response of
                         Inl rejection \<Rightarrow>
                           Inl (Error (''Failed to analyze syntax: '' @ causeText rejection))
                       | Inr errorText \<Rightarrow>
                           Inl (Error (''Failed to analyze syntax: '' @ ''Google Cloud API error: ''
                                  @ showNat (status response) @ '' '' @ statusText response
                                  @ '' - '' @ errorText)))))
   \<and> causeText (Error message) = message
   \<and> causeText (NonError rendering) = rendering
   \<and> foldl (\<lambda>a c. 10 * a + ((of_char c :: nat) - 48)) 0 (showNat k) = k
   \<and> list_all (\<lambda>c. 48 \<le> (of_char c :: nat) \<and> (of_char c :: nat) \<le> 57) (showNat k)
   \<and> (k < 10 \<longrightarrow> length (showNat k) = 1)
   \<and> (10 \<le> k \<longrightarrow> hd (showNat k) \<noteq> CHR ''0'')
   \<and> (fst (extractTextFromUrl w u prefs) = Inl e \<longrightarrow>
        (\<exists>stage cause.
           stage \<in> set [''Failed to fetch content from URL: '',
                         ''Failed to extract main content: '',
                         ''Failed to analyze entities: '', ''Failed to analyze syntax: '']
           \<and> e = Error (''Failed to extract text from URL: '' @ stage @ cause)))"
proof -
  have e: "fst (analyzeEntities w doc) =
     (case GOOGLE_CLOUD_API_KEY w of
        None \<Rightarrow>
          Inl (Error (''Failed to analyze entities: '' @ ''Google Cloud API key is not configured''))
      | Some apiKey \<Rightarrow>
          if apiKey = []
          then Inl (Error (''Failed to analyze entities: '' @ ''Google Cloud API key is not configured''))
          else
            (case fetch w \<lparr> req_url = ''https://language.googleapis.com/v1/documents:''
                                       @ ''analyzeEntities'' @ ''?key='' @ apiKey,
                             req_method = ''POST'',
                             req_headers = [(''Content-Type'', ''application/json'')],
                             req_content = Some doc \<rparr> of
               Inl rejection \<Rightarrow> Inl (Error (''Failed to analyze entities: '' @ causeText rejection))
             | Inr response \<Rightarrow>
                 if ok response
                 then (case body_json response of
                         Inl rejection \<Rightarrow>
                           Inl (Error (''Failed to analyze entities: '' @ causeText rejection))
                       | Inr result \<Rightarrow> Inr result)
                 else (case body_text response of
                         Inl rejection \<Rightarrow>
                           Inl (Error (''Failed to analyze entities: '' @ causeText rejection))
                       | Inr errorText \<Rightarrow>
                           Inl (Error (''Failed to analyze entities: '' @ ''Google Cloud API error: ''
                                  @ showNat (status response) @ '' '' @ statusText response
                                  @ '' - '' @ errorText)))))"
    unfolding analyzeEntities_def by (rule annotate_outcome)
  have s: "fst (analyzeSyntax w doc) =
     (case GOOGLE_CLOUD_API_KEY w of
        None \<Rightarrow>
          Inl (Error (''Failed to analyze syntax: '' @ ''Google Cloud API key is not configured''))
      | Some apiKey \<Rightarrow>
          if apiKey = []
          then Inl (Error (''Failed to analyze syntax: '' @ ''Google Cloud API key is not configured''))
          else
            (case fetch w \<lparr> req_url = ''https://language.googleapis.com/v1/documents:''
                                       @ ''analyzeSyntax'' @ ''?key='' @ apiKey,
                             req_method = ''POST'',
                             req_headers = [(''Content-Type'', ''application/json'')],
                             req_content = Some doc \<rparr> of
               Inl rejection \<Rightarrow> Inl (Error (''Failed to analyze syntax: '' @ causeText rejection))
             | Inr response \<Rightarrow>
                 if ok response
                 then (case body_json response of
                         Inl rejection \<Rightarrow>
                           Inl (Error (''Failed to analyze syntax: '' @ causeText rejection))
                       | Inr result \<Rightarrow> Inr result)
                 else (case body_text response of
                         Inl rejection \<Rightarrow>
                           Inl (Error (''Failed to analyze syntax: '' @ causeText rejection))
                       | Inr errorText \<Rightarrow>
                           Inl (Error (''Failed to analyze syntax: '' @ ''Google Cloud API error: ''
                                  @ showNat (status response) @ '' '' @ statusText response
                                  @ '' - '' @ errorText)))))"
    unfolding analyzeSyntax_def by (rule annotate_outcome)
  have c: "causeText (Error message) = message" "causeText (NonError rendering) = rendering"
    by (simp_all add: causeText_def)
  have p: "foldl (\<lambda>a c. 10 * a + ((of_char c :: nat) - 48)) 0 (showNat k) = k"
    "list_all (\<lambda>c. 48 \<le> (of_char c :: nat) \<and> (of_char c :: nat) \<le> 57) (showNat k)"
    "k < 10 \<longrightarrow> length (showNat k) = 1"
    "10 \<le> k \<longrightarrow> hd (showNat k) \<noteq> CHR ''0''"
    using showNat_decimal [of k] by blast+
  have f: "(fst (extractTextFromUrl w u prefs) = Inl e \<longrightarrow>
        (\<exists>stage cause.
           stage \<in> set [''Failed to fetch content from URL: '',
                         ''Failed to extract main content: '',
                         ''Failed to analyze entities: '', ''Failed to analyze syntax: '']
           \<and> e = Error (''Failed to extract text from URL: '' @ stage @ cause)))"
    using extractTextFromUrl_error_shape [of w u prefs e] by blast
  note o = extractTextFromUrl_outcome [of w u prefs]
  note fo = fetchHtmlFromUrl_outcome [of w u]
  note mo = extractMainContent_outcome [of w html]
  show ?thesis
    by (intro conjI) (rule o fo mo e s c p f)+
qed


theorem extractTextFromUrl_wraps_failures_witness:
  "fst (extractTextFromUrl brokenWorld ''https://shop.example/kettle'' None) =
     Inl (Error ''Failed to extract text from URL: Failed to fetch content from URL: getaddrinfo ENOTFOUND'')
   \<and> fst (extractMainContent brokenWorld ''<html></html>'') =
     Inl (Error ''Failed to extract main content: out of memory'')
   \<and> fst (extractTextFromUrl notFoundWorld ''https://shop.example/kettle'' None) =
     Inl (Error ''Failed to extract text from URL: Failed to fetch content from URL: Failed to fetch URL: 404 Not Found'')
   \<and> fst (extractTextFromUrl deniedWorld ''https://shop.example/kettle'' None) =
     Inl (Error ''Failed to extract text from URL: Failed to analyze entities: Google Cloud API error: 403 Forbidden - API key not valid'')"
proof -
  note b = extractTextFromUrl_wraps_failures [where w = brokenWorld
      and u = "''https://shop.example/kettle''" and prefs = None and html = "''<html></html>''"]
  note n = extractTextFromUrl_wraps_failures [where w = notFoundWorld
      and u = "''https://shop.example/kettle''" and prefs = None]
  note d = extractTextFromUrl_wraps_failures [where w = deniedWorld
      and u = "''https://shop.example/kettle''" and prefs = None
      and html = "''<html><p>Acme Kettle</p></html>''"
      and doc = "''Acme Kettle. Boils fast.''"]
  have c: "causeText (Error m) = m" "causeText (NonError r) = r" for m r
    using b by blast+
  have s: "showNat 404 = ''404''" "showNat 403 = ''403''"
    by code_simp+
  have bf: "fst (fetchHtmlFromUrl brokenWorld ''https://shop.example/kettle'') =
      Inl (Error ''Failed to fetch content from URL: getaddrinfo ENOTFOUND'')"
    using b [THEN conjunct2, THEN conjunct1] by (simp add: brokenWorld_def c)
  have b1: "fst (extractTextFromUrl brokenWorld ''https://shop.example/kettle'' None) =
     Inl (Error ''Failed to extract text from URL: Failed to fetch content from URL: getaddrinfo ENOTFOUND'')"
    using b [THEN conjunct1] by (simp add: bf c)
  have b2: "fst (extractMainContent brokenWorld ''<html></html>'') =
     Inl (Error ''Failed to extract main content: out of memory'')"
    using b [THEN conjunct2, THEN conjunct2, THEN conjunct1] by (simp add: brokenWorld_def c)
  have nf: "fst (fetchHtmlFromUrl notFoundWorld ''https://shop.example/kettle'') =
      Inl (Error ''Failed to fetch content from URL: Failed to fetch URL: 404 Not Found'')"
    using n [THEN conjunct2, THEN conjunct1] by (simp add: notFoundWorld_def s)
  have n1: "fst (extractTextFromUrl notFoundWorld ''https://shop.example/kettle'' None) =
     Inl (Error ''Failed to extract text from URL: Failed to fetch content from URL: Failed to fetch URL: 404 Not Found'')"
    using n [THEN conjunct1] by (simp add: nf c)
  have df: "fst (fetchHtmlFromUrl deniedWorld ''https://shop.example/kettle'') =
      Inr ''<html><p>Acme Kettle</p></html>''"
    using d [THEN conjunct2, THEN conjunct1] by (simp add: deniedWorld_def)
  have dm: "fst (extractMainContent deniedWorld ''<html><p>Acme Kettle</p></html>'') =
      Inr ''Acme Kettle. Boils fast.''"
    using d [THEN conjunct2, THEN conjunct2, THEN conjunct1] by (simp add: deniedWorld_def)
  have de: "fst (analyzeEntities deniedWorld ''Acme Kettle. Boils fast.'') =
      Inl (Error ''Failed to analyze entities: Google Cloud API error: 403 Forbidden - API key not valid'')"
    using d [THEN conjunct2, THEN conjunct2, THEN conjunct2, THEN conjunct1]
    by (simp add: deniedWorld_def s)
  have d1: "fst (extractTextFromUrl deniedWorld ''https://shop.example/kettle'' None) =
     Inl (Error ''Failed to extract text from URL: Failed to analyze entities: Google Cloud API error: 403 Forbidden - API key not valid'')"
    using d [THEN conjunct1] by (simp add: df dm de c)
  show ?thesis
    using b1 b2 n1 d1 by blast
qed


section \<open>The report\<close>

lemma extractTextFromUrl_success:
  assumes "fst (fetchHtmlFromUrl w u) = Inr html"
    and "fst (extractMainContent w html) = Inr mainContent"
    and "fst (analyzeEntities w (take 5000 mainContent)) = Inr entityResponse"
    and "fst (analyzeSyntax w (take 5000 mainContent)) = Inr syntaxResponse"
  shows "fst (extractTextFromUrl w u prefs) =
     Inr (assembleReport
            (extractProductInfo
               (case entities entityResponse of None \<Rightarrow> [] | Some es \<Rightarrow> es) prefs)
            (extractDescriptions
               (case sentences syntaxResponse of None \<Rightarrow> [] | Some ss \<Rightarrow> ss) prefs)
            mainContent prefs)"
  using assms by (simp add: extractTextFromUrl_cases orEmpty_def)

lemma extractTextFromUrl_success_only:
  assumes "fst (extractTextFromUrl w u prefs) = Inr report"
  shows "\<exists>html mainContent entityResponse syntaxResponse.
     fst (fetchHtmlFromUrl w u) = Inr html
     \<and> fst (extractMainContent w html) = Inr mainContent
     \<and> fst (analyzeEntities w (take 5000 mainContent)) = Inr entityResponse
     \<and> fst (analyzeSyntax w (take 5000 mainContent)) = Inr syntaxResponse
     \<and> report =
         assembleReport
            (extractProductInfo
               (case entities entityResponse of None \<Rightarrow> [] | Some es \<Rightarrow> es) prefs)
            (extractDescriptions
               (case sentences syntaxResponse of None \<Rightarrow> [] | Some ss \<Rightarrow> ss) prefs)
            mainContent prefs"
  using assms unfolding extractTextFromUrl_cases
  by (auto simp: orEmpty_def split: sum.splits)

lemma assembleReport_explicit:
  "assembleReport pinfo ds mc prefs =
     ''\<newline>Product Name: ''
     @ (if name pinfo = [] then ''Unknown Product'' else name pinfo) @ ''\<newline>''
     @ (if price pinfo = [] then [] else ''Price: '' @ price pinfo)
     @ ''\<newline>\<newline>Product Description:\<newline>''
     @ (case take (if isExpert prefs then 5 else 3) ds of
          [] \<Rightarrow>
            if description pinfo = [] then ''No description available.'' else description pinfo
        | d # rest \<Rightarrow>
            if d @ concat (map (\<lambda>x. ''\<newline>\<newline>'' @ x) rest) = []
            then if description pinfo = [] then ''No description available.''
                 else description pinfo
            else d @ concat (map (\<lambda>x. ''\<newline>\<newline>'' @ x) rest))
     @ ''\<newline>\<newline>Key Features:\<newline>''
     @ (case take (if isExpert prefs then 10 else 5) (features pinfo) of
          [] \<Rightarrow> ''- No features extracted.''
        | f # rest \<Rightarrow>
            ''- '' @ f @ concat (map (\<lambda>x. ''\<newline>'' @ ''- '' @ x) rest))
     @ ''\<newline>\<newline>Technical Specifications:\<newline>''
     @ specificationsSection pinfo
     @ ''\<newline>\<newline>\<newline>Additional Information:\<newline>''
     @ take (if isExpert prefs then 2000 else 1000) mc
     @ ''...\<newline>\<newline>    ''"
proof -
  have d: "descriptionSection pinfo ds (isExpert prefs) =
      (case take (if isExpert prefs then 5 else 3) ds of
          [] \<Rightarrow>
            if description pinfo = [] then ''No description available.'' else description pinfo
        | d # rest \<Rightarrow>
            if d @ concat (map (\<lambda>x. ''\<newline>\<newline>'' @ x) rest) = []
            then if description pinfo = [] then ''No description available.''
                 else description pinfo
            else d @ concat (map (\<lambda>x. ''\<newline>\<newline>'' @ x) rest))"
    by (simp add: descriptionSection_def orElse_def join_case [of _ "take _ ds"]
        split: list.splits)
  have f: "featuresSection pinfo (isExpert prefs) =
      (case take (if isExpert prefs then 10 else 5) (features pinfo) of
          [] \<Rightarrow> ''- No features extracted.''
        | f # rest \<Rightarrow>
            ''- '' @ f @ concat (map (\<lambda>x. ''\<newline>'' @ ''- '' @ x) rest))"
  proof (cases "features pinfo")
    case Nil
    then show ?thesis by (simp add: featuresSection_def)
  next
    case (Cons x xs)
    then have "take (if isExpert prefs then 10 else 5) (features pinfo) \<noteq> []"
      by simp
    then show ?thesis
      using Cons
      by (simp only: featuresSection_def featureBullets_def join_map split: list.splits) simp
  qed
  have a: "additionalInformation mc (isExpert prefs) =
      ''\<newline>Additional Information:\<newline>''
      @ take (if isExpert prefs then 2000 else 1000) mc @ ''...\<newline>''"
    by (simp add: additionalInformation_def)
  show ?thesis
    unfolding assembleReport_def d f a by (simp add: orElse_def)
qed


lemma isExpert_iff:
  "isExpert prefs \<longleftrightarrow>
     (\<exists>p. prefs = Some p \<and> (expertise p = Some ''expert'' \<or> expertise p = Some ''advanced''))"
  by (cases prefs) (simp_all add: isExpert_def)

text \<open>
  C4. Detailed mode is on exactly when preferences are given and their expertise is
  "expert" or "advanced". For every product information, list of description candidates
  and readable content, the report is the fixed template filled as follows: the
  description section joins the first 5 candidates in detailed mode and the first 3
  otherwise; the features section has one bullet for each of the first 10 features in
  detailed mode and of the first 5 otherwise (or the placeholder bullet when there is no
  feature), so at most 10 and at most 5 bullets; the Additional Information is the first
  2000 characters of the readable content in detailed mode and the first 1000 otherwise,
  followed by "...". When the four stages succeed, extractTextFromUrl returns exactly
  this report for the product information and the candidates computed from the
  annotation results and for the readable content, and it returns a report in no other
  case.
\<close>

theorem report_depth_by_expertise:
  "(isExpert prefs \<longleftrightarrow>
      (\<exists>p. prefs = Some p \<and> (expertise p = Some ''expert'' \<or> expertise p = Some ''advanced'')))
   \<and> assembleReport pinfo ds mc prefs =
       ''\<newline>Product Name: ''
       @ (if name pinfo = [] then ''Unknown Product'' else name pinfo) @ ''\<newline>''
       @ (if price pinfo = [] then [] else ''Price: '' @ price pinfo)
       @ ''\<newline>\<newline>Product Description:\<newline>''
       @ (case take (if isExpert prefs then 5 else 3) ds of
            [] \<Rightarrow>
              if description pinfo = [] then ''No description available.''
              else description pinfo
          | d # rest \<Rightarrow>
              if d @ concat (map (\<lambda>x. ''\<newline>\<newline>'' @ x) rest) = []
              then if description pinfo = [] then ''No description available.''
                   else description pinfo
              else d @ concat (map (\<lambda>x. ''\<newline>\<newline>'' @ x) rest))
       @ ''\<newline>\<newline>Key Features:\<newline>''
       @ (case take (if isExpert prefs then 10 else 5) (features pinfo) of
            [] \<Rightarrow> ''- No features extracted.''
          | f # rest \<Rightarrow>
              ''- '' @ f @ concat (map (\<lambda>x. ''\<newline>'' @ ''- '' @ x) rest))
       @ ''\<newline>\<newline>Technical Specifications:\<newline>''
       @ specificationsSection pinfo
       @ ''\<newline>\<newline>\<newline>Additional Information:\<newline>''
       @ take (if isExpert prefs then 2000 else 1000) mc
       @ ''...\<newline>\<newline>    ''
   \<and> length (take (if isExpert prefs then 10 else 5) (features pinfo))
        \<le> (if isExpert prefs then 10 else 5)
   \<and> length (take (if isExpert prefs then 2000 else 1000) mc)
        \<le> (if isExpert prefs then 2000 else 1000)
   \<and> (fst (fetchHtmlFromUrl w u) = Inr html
        \<and> fst (extractMainContent w html) = Inr mainContent
        \<and> fst (analyzeEntities w (take 5000 mainContent)) = Inr entityResponse
        \<and> fst (analyzeSyntax w (take 5000 mainContent)) = Inr syntaxResponse
        \<longrightarrow>
        fst (extractTextFromUrl w u prefs) =
          Inr (assembleReport
                 (extractProductInfo
                    (case entities entityResponse of None \<Rightarrow> [] | Some es \<Rightarrow> es) prefs)
                 (extractDescriptions
                    (case sentences syntaxResponse of None \<Rightarrow> [] | Some ss \<Rightarrow> ss) prefs)
                 mainContent prefs))
   \<and> (fst (extractTextFromUrl w u prefs) = Inr report \<longrightarrow>
        (\<exists>html' mainContent' entityResponse' syntaxResponse'.
           fst (fetchHtmlFromUrl w u) = Inr html'
           \<and> fst (extractMainContent w html') = Inr mainContent'
           \<and> fst (analyzeEntities w (take 5000 mainContent')) = Inr entityResponse'
           \<and> fst (analyzeSyntax w (take 5000 mainContent')) = Inr syntaxResponse'
           \<and> report =
               assembleReport
                 (extractProductInfo
                    (case entities entityResponse' of None \<Rightarrow> [] | Some es \<Rightarrow> es) prefs)
                 (extractDescriptions
                    (case sentences syntaxResponse' of None \<Rightarrow> [] | Some ss \<Rightarrow> ss) prefs)
                 mainContent' prefs))"
proof -
  have l: "length (take (if isExpert prefs then 10 else 5) (features pinfo))
        \<le> (if isExpert prefs then 10 else 5)"
    "length (take (if isExpert prefs then 2000 else 1000) mc)
        \<le> (if isExpert prefs then 2000 else 1000)"
    by simp_all
  show ?thesis
    using isExpert_iff [of prefs] assembleReport_explicit [of pinfo ds mc prefs] l
      extractTextFromUrl_success [of w u html mainContent entityResponse syntaxResponse prefs]
      extractTextFromUrl_success_only [of w u prefs report]
    by blast
qed


theorem report_depth_by_expertise_witness:
  "fst (extractTextFromUrl kettleWorld ''https://shop.example/kettle'' (Some expertUser)) =
     Inr ''\<newline>Product Name: Acme Kettle\<newline>Price: $49.99\<newline>\<newline>Product Description:\<newline>A rechargeable BATTERY in the base keeps the water warm.\<newline>\<newline>The Acme Kettle boils a full jug of water in three minutes.\<newline>\<newline>Key Features:\<newline>- Long Battery life\<newline>- Automatic shut-off\<newline>\<newline>Technical Specifications:\<newline>- Volume: 1.7l\<newline>\<newline>\<newline>Additional Information:\<newline>Acme Kettle. Boils fast....\<newline>\<newline>    ''"
proof -
  have x: "isExpert (Some expertUser)"
    by (simp add: isExpert_def expertUser_def)
  have h: "fst (fetchHtmlFromUrl kettleWorld ''https://shop.example/kettle'')
      = Inr ''<html><p>Acme Kettle</p></html>''"
    by (simp add: fetchHtmlFromUrl_def getRequest_def kettleWorld_def fst_io_catch fst_io_bind
        fst_io_simps)
  have m: "fst (extractMainContent kettleWorld ''<html><p>Acme Kettle</p></html>'')
      = Inr ''Acme Kettle. Boils fast.''"
    by (simp add: extractMainContent_def kettleWorld_def fst_io_catch fst_io_bind fst_io_simps)
  have a: "fst (annotate kettleWorld endpoint doc)
      = Inr \<lparr> entities = Some kettleEntities, sentences = Some kettleSentences \<rparr>"
    for endpoint doc
    by (simp add: annotate_def kettleWorld_def fst_io_bind fst_io_simps)
  have ae: "fst (analyzeEntities kettleWorld (take 5000 ''Acme Kettle. Boils fast.''))
      = Inr \<lparr> entities = Some kettleEntities, sentences = Some kettleSentences \<rparr>"
    by (simp only: analyzeEntities_def fst_io_catch a sum.case)
  have as: "fst (analyzeSyntax kettleWorld (take 5000 ''Acme Kettle. Boils fast.''))
      = Inr \<lparr> entities = Some kettleEntities, sentences = Some kettleSentences \<rparr>"
    by (simp only: analyzeSyntax_def fst_io_catch a sum.case)
  have p: "extractProductInfo kettleEntities (Some expertUser) =
      \<lparr> name = ''Acme Kettle'', price = ''$49.99'',
        features = [''Long Battery life'', ''Automatic shut-off''],
        specifications = [(''Volume'', ''1.7l'')], description = [] \<rparr>"
    by code_simp
  have d: "extractDescriptions kettleSentences (Some expertUser) =
     [''A rechargeable BATTERY in the base keeps the water warm.'',
      ''The Acme Kettle boils a full jug of water in three minutes.'']"
    by code_simp
  have s: "specificationsSection \<lparr> name = ''Acme Kettle'', price = ''$49.99'',
        features = [''Long Battery life'', ''Automatic shut-off''],
        specifications = [(''Volume'', ''1.7l'')], description = [] \<rparr> = ''- Volume: 1.7l''"
    by code_simp
  note t = report_depth_by_expertise [of "Some expertUser"
      "extractProductInfo kettleEntities (Some expertUser)"
      "extractDescriptions kettleSentences (Some expertUser)"
      "''Acme Kettle. Boils fast.''" kettleWorld "''https://shop.example/kettle''"
      "''<html><p>Acme Kettle</p></html>''" "''Acme Kettle. Boils fast.''"
      "\<lparr> entities = Some kettleEntities, sentences = Some kettleSentences \<rparr>"
      "\<lparr> entities = Some kettleEntities, sentences = Some kettleSentences \<rparr>"]
  have r: "fst (extractTextFromUrl kettleWorld ''https://shop.example/kettle'' (Some expertUser))
      = Inr (assembleReport (extractProductInfo kettleEntities (Some expertUser))
               (extractDescriptions kettleSentences (Some expertUser))
               ''Acme Kettle. Boils fast.'' (Some expertUser))"
    using t h m ae as by simp
  have e: "assembleReport (extractProductInfo kettleEntities (Some expertUser))
               (extractDescriptions kettleSentences (Some expertUser))
               ''Acme Kettle. Boils fast.'' (Some expertUser) =
     ''\<newline>Product Name: Acme Kettle\<newline>Price: $49.99\<newline>\<newline>Product Description:\<newline>A rechargeable BATTERY in the base keeps the water warm.\<newline>\<newline>The Acme Kettle boils a full jug of water in three minutes.\<newline>\<newline>Key Features:\<newline>- Long Battery life\<newline>- Automatic shut-off\<newline>\<newline>Technical Specifications:\<newline>- Volume: 1.7l\<newline>\<newline>\<newline>Additional Information:\<newline>Acme Kettle. Boils fast....\<newline>\<newline>    ''"
    using t x unfolding p d by (simp add: s)
  show ?thesis
    unfolding r e ..
qed

lemma description_classifyEntity: "description (classifyEntity pinfo e) = description pinfo"
  by (simp add: classifyEntity_def Let_def split: option.splits)

lemma description_classifyEntities: "description (classifyEntities pinfo es) = description pinfo"
  by (induction es arbitrary: pinfo)
    (simp_all add: classifyEntities_def description_classifyEntity)

lemma description_prioritizeFeatures:
  "description (prioritizeFeatures prefs pinfo) = description pinfo"
  by (simp add: prioritizeFeatures_def split: option.splits)

text \<open>
  C10. The description field starts as the empty string; neither an iteration of the
  classifier's loop nor the sort of the features changes it, so it is empty in every
  result of extractProductInfo. Hence, when the description selector returns no
  candidate, the Product Description section of the report is the placeholder
  "No description available.", in either mode.
\<close>

theorem description_never_assigned:
  "description initialProductInfo = []
   \<and> description (classifyEntity pinfo e) = description pinfo
   \<and> description (prioritizeFeatures prefs pinfo) = description pinfo
   \<and> description (extractProductInfo es prefs) = []
   \<and> (extractDescriptions ss prefs = [] \<longrightarrow>
        descriptionSection (extractProductInfo es prefs) (extractDescriptions ss prefs) expert
          = ''No description available.'')"
proof -
  have e: "description (extractProductInfo es prefs) = []"
    by (simp add: extractProductInfo_def description_prioritizeFeatures
        description_classifyEntities initialProductInfo_def)
  have "descriptionSection (extractProductInfo es prefs) [] expert = ''No description available.''"
    by (simp add: descriptionSection_def orElse_def e)
  then show ?thesis
    using e by (simp add: description_classifyEntity description_prioritizeFeatures
        initialProductInfo_def)
qed

theorem description_never_assigned_witness:
  "extractDescriptions [plainSentence ''Buy now.''] (Some expertUser) = []
   \<and> descriptionSection (extractProductInfo kettleEntities (Some expertUser))
        (extractDescriptions [plainSentence ''Buy now.''] (Some expertUser)) True
       = ''No description available.''"
proof -
  have d: "extractDescriptions [plainSentence ''Buy now.''] (Some expertUser) = []"
    by (simp add: extractDescriptions_def collectDescriptions_def collectDescription_def
        plainSentence_def textOf_def looksLikeDescription_def rankDescriptions_def
        criteriaOf_def expertUser_def)
  show ?thesis
    using description_never_assigned [of initialProductInfo widget "Some expertUser"
        kettleEntities "[plainSentence ''Buy now.'']" True] d
    by simp
qed

section \<open>Specifications from entity names with colons\<close>

text \<open>
  What the classifier stores for a name with a colon: the key is the trimmed text before
  the first colon and the value is the trimmed text between the first colon and the
  second (or the end of the name when there is no second colon).
\<close>

lemma split_first:
  "split sep s =
     takeWhile (\<lambda>c. c \<noteq> sep) s
     # (if sep \<in> set s then split sep (tl (dropWhile (\<lambda>c. c \<noteq> sep) s)) else [])"
proof (induction s)
  case Nil
  show ?case by simp
next
  case (Cons c s)
  show ?case
  proof (cases "c = sep")
    case True
    then show ?thesis by simp
  next
    case False
    then show ?thesis
      using Cons.IH by (auto split: list.splits)
  qed
qed

lemma includesStr_char: "includesStr s [c] \<longleftrightarrow> c \<in> set s"
  by (induction s) auto

lemma storeSpecification_first_two_pieces:
  assumes "includesStr nm '':''"
  shows "storeSpecification pinfo nm =
     (let key = trim (takeWhile (\<lambda>c. c \<noteq> CHR '':'') nm);
          value = trim (takeWhile (\<lambda>c. c \<noteq> CHR '':'')
                          (tl (dropWhile (\<lambda>c. c \<noteq> CHR '':'') nm)))
      in if key \<noteq> [] \<and> value \<noteq> []
         then pinfo\<lparr>specifications := setProperty (specifications pinfo) key value\<rparr>
         else pinfo)"
proof -
  have c: "CHR '':'' \<in> set nm"
    using assms by (simp add: includesStr_char)
  have "split CHR '':'' nm =
      takeWhile (\<lambda>c. c \<noteq> CHR '':'') nm
      # takeWhile (\<lambda>c. c \<noteq> CHR '':'') (tl (dropWhile (\<lambda>c. c \<noteq> CHR '':'') nm))
      # (if CHR '':'' \<in> set (tl (dropWhile (\<lambda>c. c \<noteq> CHR '':'') nm))
         then split CHR '':'' (tl (dropWhile (\<lambda>c. c \<noteq> CHR '':'')
                (tl (dropWhile (\<lambda>c. c \<noteq> CHR '':'') nm))))
         else [])"
  proof -
    define rest where "rest = tl (dropWhile (\<lambda>c. c \<noteq> CHR '':'') nm)"
    have "split CHR '':'' nm = takeWhile (\<lambda>c. c \<noteq> CHR '':'') nm # split CHR '':'' rest"
      using c split_first [of "CHR '':''" nm] by (simp add: rest_def)
    also have "split CHR '':'' rest =
        takeWhile (\<lambda>c. c \<noteq> CHR '':'') rest
        # (if CHR '':'' \<in> set rest
           then split CHR '':'' (tl (dropWhile (\<lambda>c. c \<noteq> CHR '':'') rest)) else [])"
      by (rule split_first)
    finally show ?thesis
      by (simp add: rest_def)
  qed
  then show ?thesis
    by (simp add: storeSpecification_def Let_def)
qed

text \<open>
  C2. An entity of type OTHER with a mention and the name "Ratio:16:9" (no space, so not
  a feature) is stored under the key "Ratio" with the value "16": the name is split at
  every colon and only the first two pieces are used, so what follows the second colon
  is lost, where the value should be the whole trimmed text after the first colon,
  "16:9".
\<close>

theorem specification_value_cut_at_second_colon:
  "specifications (extractProductInfo [otherEntity ''Ratio:16:9''] None) = [(''Ratio'', ''16'')]"
  by (simp add: extractProductInfo_def prioritizeFeatures_def criteriaOf_def
      classifyEntities_def classifyEntity_def otherEntity_def mentioned_def salient_def
      initialProductInfo_def storeSpecification_def trim_def isWhiteSpace_def
      setProperty_def)


section \<open>The fallback summary\<close>





































end
